theory Spec2Isabelle
  imports Main "HOL-Library.AList"
begin

section \<open>Python values used by the scrapers\<close>

text \<open>
  Text is modelled as \<open>string\<close>, one \<open>char\<close> per code point, and is taken to be ASCII:
  \<open>upper\<close> and \<open>lower\<close> map the 26 letters and leave every other character alone, and
  \<open>is_space\<close> holds of the ASCII characters for which Python's \<open>str.isspace\<close> holds (the
  same set that \<open>str.strip()\<close> removes and that \<open>\s\<close> matches in \<open>re\<close>).
\<close>

definition nl :: char where
  "nl = CHR 0x0A"

definition is_space :: "char \<Rightarrow> bool" where
  "is_space c = (c \<in> set [CHR 0x09, CHR 0x0A, CHR 0x0B, CHR 0x0C, CHR 0x0D,
                            CHR 0x1C, CHR 0x1D, CHR 0x1E, CHR 0x1F, CHR 0x20])"

definition strip :: "string \<Rightarrow> string" where
  "strip s = rev (dropWhile is_space (rev (dropWhile is_space s)))"

definition lower_char :: "char \<Rightarrow> char" where
  "lower_char c =
     (case map_of (zip ''ABCDEFGHIJKLMNOPQRSTUVWXYZ'' ''abcdefghijklmnopqrstuvwxyz'') c of
        Some l \<Rightarrow> l | None \<Rightarrow> c)"

definition upper_char :: "char \<Rightarrow> char" where
  "upper_char c =
     (case map_of (zip ''abcdefghijklmnopqrstuvwxyz'' ''ABCDEFGHIJKLMNOPQRSTUVWXYZ'') c of
        Some u \<Rightarrow> u | None \<Rightarrow> c)"

definition lower :: "string \<Rightarrow> string" where
  "lower s = map lower_char s"

definition upper :: "string \<Rightarrow> string" where
  "upper s = map upper_char s"

text \<open>\<open>startswith s p\<close> is \<open>s.startswith(p)\<close>; \<open>contains s w\<close> is \<open>w in s\<close>.\<close>

fun startswith :: "string \<Rightarrow> string \<Rightarrow> bool" where
  "startswith s [] = True"
| "startswith [] (p # ps) = False"
| "startswith (c # cs) (p # ps) = (c = p \<and> startswith cs ps)"

fun contains :: "string \<Rightarrow> string \<Rightarrow> bool" where
  "contains [] w = (w = [])"
| "contains (c # cs) w = (startswith (c # cs) w \<or> contains cs w)"

text \<open>\<open>join sep xs\<close> is \<open>sep.join(xs)\<close>.\<close>

fun join :: "string \<Rightarrow> string list \<Rightarrow> string" where
  "join sep [] = []"
| "join sep [x] = x"
| "join sep (x # y # ys) = x @ sep @ join sep (y # ys)"

text \<open>
  \<open>re.sub(r'\s+', ' ', s)\<close> replaces every maximal run of whitespace by one space, and
  \<open>re.sub(r'\n+', '\n', s)\<close> every maximal run of newlines by one newline.
\<close>

function collapse_ws :: "string \<Rightarrow> string" where
  "collapse_ws [] = []"
| "collapse_ws (c # cs) =
     (if is_space c then CHR 0x20 # collapse_ws (dropWhile is_space cs)
      else c # collapse_ws cs)"
  by pat_completeness auto
termination
  by (relation "measure length") (auto simp: length_dropWhile_le less_Suc_eq_le)

function collapse_nl :: "string \<Rightarrow> string" where
  "collapse_nl [] = []"
| "collapse_nl (c # cs) =
     (if c = nl then nl # collapse_nl (dropWhile (\<lambda>d. d = nl) cs)
      else c # collapse_nl cs)"
  by pat_completeness auto
termination
  by (relation "measure length") (auto simp: length_dropWhile_le less_Suc_eq_le)

text \<open>
  An exception is an instance of Python's \<open>Exception\<close>, which is what every
  \<open>except Exception\<close> clause of the repository catches: \<open>msg e\<close> is \<open>str(e)\<close> and
  \<open>ctx e\<close> is \<open>e.__context__\<close>, which Python sets to the exception being handled when a
  new exception is raised inside an \<open>except\<close> block.
\<close>

datatype exn = Exn (msg: string) (ctx: "exn option")

definition raised_while_handling :: "exn \<Rightarrow> exn \<Rightarrow> exn" where
  "raised_while_handling e' e = Exn (msg e') (Some e)"

text \<open>Dictionaries, lists and strings that the scrapers return, in insertion order.\<close>

datatype json = JStr string | JInt int | JList "json list" | JDict "(string \<times> json) list"

text \<open>\<open>d[k]\<close> raises \<open>KeyError\<close> (whose \<open>str\<close> is the quoted key) when \<open>k\<close> is absent.\<close>

fun getitem :: "json \<Rightarrow> string \<Rightarrow> exn + json" where
  "getitem (JDict kvs) k =
     (case map_of kvs k of
        Some v \<Rightarrow> Inr v
      | None \<Rightarrow> Inl (Exn ([CHR 0x27] @ k @ [CHR 0x27]) None))"
| "getitem _ k = Inl (Exn ''not subscriptable'' None)"


section \<open>The universal scraper (services/scraper.py)\<close>

text \<open>
  A parsed page as \<open>SchoolScraper\<close> reads it. A \<open>tag\<close> carries its name, \<open>get_text()\<close>,
  \<open>get_text(strip=True)\<close> and \<open>get_text(strip=True, separator="\n")\<close>; an \<open>element\<close> is a
  tag together with its descendants in document order. \<open>sp_tags\<close> lists the tags of the
  page after the \<open>script\<close>, \<open>style\<close>, \<open>iframe\<close> and \<open>noscript\<close> elements are removed,
  \<open>sp_select_one\<close> is \<open>soup.select_one\<close>, and \<open>sp_class_containers\<close> is
  \<open>soup.find_all(['div', 'section'], class_=True)\<close>.
\<close>

record tag =
  tg_name :: string
  tg_text_raw :: string
  tg_text :: string
  tg_text_lines :: string

record element =
  el_text :: string
  el_descendants :: "tag list"

record soup =
  sp_tags :: "tag list"
  sp_select_one :: "string \<Rightarrow> element option"
  sp_class_containers :: "element list"

definition selectors :: "string list" where
  "selectors = [''main'', ''#main'', ''.main'',
                ''article'', ''.article'', ''#article'',
                ''.content'', ''#content'', ''.page-content'',
                ''.entry-content'', ''.post-content'',
                ''.container'', ''.inner-container'']"

fun first_selector_hit :: "soup \<Rightarrow> string list \<Rightarrow> element option" where
  "first_selector_hit sp [] = None"
| "first_selector_hit sp (sel # sels) =
     (case sp_select_one sp sel of
        Some content \<Rightarrow>
          if length (el_text content) > 100 then Some content
          else first_selector_hit sp sels
      | None \<Rightarrow> first_selector_hit sp sels)"

text \<open>
  \<open>sorted(containers, key=..., reverse=True)\<close> is stable: containers of equal text length
  keep their document order, as \<open>sort_key\<close> on the negated length does.
\<close>

definition find_main_content :: "soup \<Rightarrow> element option" where
  "find_main_content sp =
     (case first_selector_hit sp selectors of
        Some content \<Rightarrow> Some content
      | None \<Rightarrow>
          (case sort_key (\<lambda>x. - int (length (el_text x))) (sp_class_containers sp) of
             [] \<Rightarrow> None
           | c # cs \<Rightarrow> if length (el_text c) > 100 then Some c else None))"

definition find_all_names :: "tag list \<Rightarrow> string list \<Rightarrow> tag list" where
  "find_all_names ts names = filter (\<lambda>t. tg_name t \<in> set names) ts"

definition find_all_keywords :: "tag list \<Rightarrow> string list \<Rightarrow> string list \<Rightarrow> tag list" where
  "find_all_keywords ts names keywords =
     filter (\<lambda>t. tg_name t \<in> set names \<and>
                 list_ex (\<lambda>k. contains (lower (tg_text_raw t)) k) keywords) ts"

definition related_text :: "soup \<Rightarrow> string list \<Rightarrow> string list \<Rightarrow> string" where
  "related_text sp names keywords =
     (case find_all_keywords (sp_tags sp) names keywords of
        [] \<Rightarrow> ''''
      | related \<Rightarrow> join [nl] (map tg_text related))"

definition extract_fees :: "soup \<Rightarrow> string" where
  "extract_fees sp =
     (case find_all_names (sp_tags sp) [''table''] of
        [] \<Rightarrow> related_text sp [''div'', ''section'', ''p'']
                [''fee'', ''tuition'', ''cost'', ''payment'', ''financial'']
      | tables \<Rightarrow> join [nl] (map tg_text_lines tables))"

definition extract_program :: "soup \<Rightarrow> string" where
  "extract_program sp = related_text sp [''div'', ''section'', ''p'', ''li'']
     [''program'', ''curriculum'', ''academic'', ''course'', ''study'']"

definition extract_enrollment :: "soup \<Rightarrow> string" where
  "extract_enrollment sp = related_text sp [''div'', ''section'', ''p'', ''li'']
     [''enroll'', ''admission'', ''application'', ''apply'', ''requirement'']"

definition extract_events :: "soup \<Rightarrow> string" where
  "extract_events sp = related_text sp [''div'', ''section'', ''p'', ''li'']
     [''event'', ''calendar'', ''upcoming'', ''schedule'']"

definition extract_scholarships :: "soup \<Rightarrow> string" where
  "extract_scholarships sp = related_text sp [''div'', ''section'', ''p'', ''li'']
     [''scholarship'', ''financial aid'', ''discount'', ''grant'', ''assistance'']"

definition extract_contact :: "soup \<Rightarrow> string" where
  "extract_contact sp = related_text sp [''div'', ''section'', ''p'', ''li'', ''address'']
     [''contact'', ''email'', ''phone'', ''address'', ''location'']"

definition nonempty_texts :: "tag list \<Rightarrow> string list" where
  "nonempty_texts ts = filter (\<lambda>s. s \<noteq> []) (map tg_text ts)"

definition extract_content :: "soup \<Rightarrow> string \<Rightarrow> string" where
  "extract_content sp field_name =
     (let content =
            (case find_main_content sp of
               None \<Rightarrow>
                 if field_name = ''school_fee'' then extract_fees sp
                 else if field_name = ''program'' then extract_program sp
                 else if contains field_name ''Enrollment'' then extract_enrollment sp
                 else if contains field_name ''Events'' then extract_events sp
                 else if contains field_name ''Discounts'' then extract_scholarships sp
                 else if contains field_name ''Contact'' then extract_contact sp
                 else join [nl] (nonempty_texts (find_all_names (sp_tags sp) [''p'']))
             | Some main_content \<Rightarrow>
                 join [nl] (nonempty_texts (find_all_names (el_descendants main_content)
                   [''p'', ''h1'', ''h2'', ''h3'', ''h4'', ''h5'', ''h6'', ''li''])));
          content = strip (collapse_ws content);
          content = strip (collapse_nl content)
      in if content \<noteq> [] then take 5000 content else ''No structured data found'')"

text \<open>
  A catalog field is a single URL or a list of URLs; \<open>school.get(field_name, [])\<close> gives the
  empty list for an absent field. \<open>fetch url\<close> is \<open>session_manager.get(url)\<close> followed by
  the parse: the page, or the exception that either raised.
\<close>

datatype field_value = Url string | Urls "string list"

type_synonym school = "string \<rightharpoonup> field_value"

definition school_get :: "school \<Rightarrow> string \<Rightarrow> field_value" where
  "school_get sch field_name = (case sch field_name of Some v \<Rightarrow> v | None \<Rightarrow> Urls [])"

fun scrape_urls :: "(string \<Rightarrow> exn + soup) \<Rightarrow> string \<Rightarrow> string list \<Rightarrow> string list" where
  "scrape_urls fetch field_name [] = []"
| "scrape_urls fetch field_name (url # urls) =
     (if url = [] then scrape_urls fetch field_name urls
      else case fetch url of
        Inl e \<Rightarrow> (''Error scraping '' @ url @ '': '' @ msg e) # scrape_urls fetch field_name urls
      | Inr sp \<Rightarrow>
          (let content = extract_content sp field_name
           in if content \<noteq> []
              then (''From '' @ url @ '':'' @ [nl] @ content) # scrape_urls fetch field_name urls
              else scrape_urls fetch field_name urls))"

text \<open>\<^verbatim>\<open>if isinstance(field_data, str): field_data = [field_data]\<close>\<close>

definition as_url_list :: "field_value \<Rightarrow> string list" where
  "as_url_list field_data = (case field_data of Url u \<Rightarrow> [u] | Urls us \<Rightarrow> us)"

definition scrape_field :: "(string \<Rightarrow> exn + soup) \<Rightarrow> school \<Rightarrow> string \<Rightarrow> string" where
  "scrape_field fetch sch field_name =
     (let field_data = school_get sch field_name in
      if field_data = Url [] \<or> field_data = Urls [] then ''No data available''
      else
        (let results = scrape_urls fetch field_name (as_url_list field_data)
         in if results = [] then ''No data available''
            else join ([nl, nl] @ ''---'' @ [nl, nl]) results))"

text \<open>A page on which nothing is found.\<close>

definition empty_soup :: soup where
  "empty_soup = \<lparr>sp_tags = [], sp_select_one = (\<lambda>s. None), sp_class_containers = []\<rparr>"

section \<open>International School Manila (services/schools/ism_scraper.py)\<close>

subsection \<open>Result wrappers\<close>

definition success_result :: "json \<Rightarrow> json" where
  "success_result d = JDict [(''status'', JStr ''success''), (''data'', d)]"

definition error_result :: "string \<Rightarrow> json" where
  "error_result m = JDict [(''status'', JStr ''error''), (''message'', JStr m)]"

text \<open>
  Every category method that fetches a page has the shape
  \<^verbatim>\<open>try: ... return {...}  except Exception as e: return {"status": "error", "message": str(e)}\<close>;
  \<open>guarded\<close> applies the \<open>except\<close> clause to the outcome of the \<open>try\<close> block.
\<close>

definition guarded :: "exn + json \<Rightarrow> json" where
  "guarded body = (case body of Inl e \<Rightarrow> error_result (msg e) | Inr r \<Rightarrow> r)"

subsection \<open>Tuition fees\<close>

text \<open>
  A table row is the list of the \<open>get_text(strip=True)\<close> of its \<open>td\<close> and \<open>th\<close> cells.
  Program dictionaries are association lists in insertion order; \<open>AList.update\<close> is the
  dictionary assignment \<open>d[k] = v\<close>.
\<close>

type_synonym row = "string list"

record fee =
  annual :: string
  semester1 :: string
  semester2 :: string

record tuition_data =
  regular_program :: "(string \<times> fee) list"
  specialized_program :: "(string \<times> fee) list"
  additional_fees :: "(string \<times> string) list"
  other_fees :: "(string \<times> string) list"

definition empty_tuition_data :: tuition_data where
  "empty_tuition_data =
     \<lparr>regular_program = [], specialized_program = [], additional_fees = [], other_fees = []\<rparr>"

text \<open>\<open>re.sub(r'<[^>]+>', '', s)\<close>: a \<open><\<close>, at least one character other than \<open>>\<close>, and a \<open>>\<close>.\<close>

function strip_tags :: "string \<Rightarrow> string" where
  "strip_tags [] = []"
| "strip_tags (c # cs) =
     (if c = CHR ''<'' \<and> takeWhile (\<lambda>d. d \<noteq> CHR ''>'') cs \<noteq> []
         \<and> dropWhile (\<lambda>d. d \<noteq> CHR ''>'') cs \<noteq> []
      then strip_tags (tl (dropWhile (\<lambda>d. d \<noteq> CHR ''>'') cs))
      else c # strip_tags cs)"
  by pat_completeness auto
termination
proof (relation "measure length")
  show "wf (measure length)" by simp
next
  fix c :: char and cs :: string
  assume "c = CHR ''<'' \<and> takeWhile (\<lambda>d. d \<noteq> CHR ''>'') cs \<noteq> []
          \<and> dropWhile (\<lambda>d. d \<noteq> CHR ''>'') cs \<noteq> []"
  have "length (tl (dropWhile (\<lambda>d. d \<noteq> CHR ''>'') cs)) \<le> length cs"
    using length_dropWhile_le [of "\<lambda>d. d \<noteq> CHR ''>''" cs] by simp
  then show "(tl (dropWhile (\<lambda>d. d \<noteq> CHR ''>'') cs), c # cs) \<in> measure length"
    by simp
next
  fix c :: char and cs :: string
  show "(cs, c # cs) \<in> measure length" by simp
qed

definition fee_of :: "string \<Rightarrow> string \<Rightarrow> string \<Rightarrow> fee" where
  "fee_of a s1 s2 = \<lparr>annual = a, semester1 = s1, semester2 = s2\<rparr>"

text \<open>\<open>not current_section\<close> holds of \<open>None\<close> and of the empty string.\<close>

definition no_section :: "string option \<Rightarrow> bool" where
  "no_section current_section = (current_section = None \<or> current_section = Some [])"

definition add_program :: "string option \<Rightarrow> string \<Rightarrow> fee \<Rightarrow> tuition_data \<Rightarrow> tuition_data" where
  "add_program current_section program_name f td =
     (if current_section = Some ''regular_program''
      then td\<lparr>regular_program := AList.update program_name f (regular_program td)\<rparr>
      else if current_section = Some ''specialized_program''
      then td\<lparr>specialized_program := AList.update program_name f (specialized_program td)\<rparr>
      else td)"

text \<open>The body of the loop over the rows of \<open>table.table\<close> (lines 64 to 123).\<close>

definition scan_row :: "string option \<times> tuition_data \<Rightarrow> row \<Rightarrow> string option \<times> tuition_data" where
  "scan_row st cells =
     (let current_section = fst st; td = snd st in
      if length cells < 2 then st
      else
        let program_content = cells ! 0 in
        if program_content = [] then st
        else if contains (upper program_content) ''REGULAR PROGRAM''
        then (Some ''regular_program'', td)
        else if contains (upper program_content) ''SPECIALIZED''
                \<and> contains (upper program_content) ''PROGRAM''
        then (Some ''specialized_program'', td)
        else if length cells < 4 \<or> no_section current_section then st
        else
          let annual_fee = (if length cells > 1 then cells ! 1 else []);
              semester1_fee = (if length cells > 2 then cells ! 2 else []);
              semester2_fee = (if length cells > 3 then cells ! 3 else [])
          in if annual_fee = [] then st
             else
               let program_name = strip (strip_tags program_content)
               in (current_section,
                   add_program current_section program_name
                     (fee_of annual_fee semester1_fee semester2_fee) td))"

definition scan_rows :: "row list \<Rightarrow> tuition_data \<Rightarrow> string option \<times> tuition_data" where
  "scan_rows rows td = foldl scan_row (None, td) rows"

text \<open>The body of the inner loop of the alternative parsing (lines 195 to 241).\<close>

definition alt_row :: "string option \<times> tuition_data \<Rightarrow> row \<Rightarrow> string option \<times> tuition_data" where
  "alt_row st cells =
     (let current_section = fst st; td = snd st in
      if length cells < 1 then st
      else
        let first_cell = cells ! 0 in
        if contains (upper first_cell) ''REGULAR PROGRAM''
           \<or> contains (upper first_cell) ''REGULAR'' \<and> contains (upper first_cell) ''PROGRAM''
        then (Some ''regular_program'', td)
        else if contains (upper first_cell) ''SPECIALIZED''
                \<and> contains (upper first_cell) ''PROGRAM''
        then (Some ''specialized_program'', td)
        else if no_section current_section \<or> length cells < 2 then st
        else
          let program_name = strip first_cell in
          if program_name = [] \<or> contains (upper program_name) ''PROGRAM'' then st
          else if length cells \<ge> 2 then
            let annual_fee = cells ! 1;
                semester1_fee = (if length cells > 2 then cells ! 2 else []);
                semester2_fee = (if length cells > 3 then cells ! 3 else [])
            in if annual_fee \<noteq> []
               then (current_section,
                     add_program current_section program_name
                       (fee_of annual_fee semester1_fee semester2_fee) td)
               else st
          else st)"

text \<open>The outer loop: \<open>current_section\<close> starts at \<open>None\<close> in every table.\<close>

definition alt_tables :: "row list list \<Rightarrow> tuition_data \<Rightarrow> tuition_data" where
  "alt_tables tables td = foldl (\<lambda>td rows. snd (foldl alt_row (None, td) rows)) td tables"

text \<open>
  The school-fees page as \<open>scrape_tuition_fees\<close> reads it: \<open>tp_table\<close> is
  \<open>soup.select_one("table.table")\<close> (the rows of the table, or \<open>None\<close>), \<open>tp_tables\<close> is
  \<open>soup.find_all('table')\<close>, and \<open>tp_content_fees\<close> is the outcome of lines 129 to 181,
  which read \<open>section.rich-text-block div.content\<close> and write only the dictionaries
  \<open>additional_fees\<close> and \<open>other_fees\<close>: the two dictionaries, or the exception raised.

  The outcome of the method comes with the queries it made on the parsed page, in order.
\<close>

record tuition_page =
  tp_table :: "row list option"
  tp_content_fees :: "exn + ((string \<times> string) list \<times> (string \<times> string) list)"
  tp_tables :: "row list list"

datatype query = SelectOne string | FindAll string | Find string

definition fee_json :: "fee \<Rightarrow> json" where
  "fee_json f = JDict [(''annual'', JStr (annual f)), (''semester1'', JStr (semester1 f)),
                       (''semester2'', JStr (semester2 f))]"

definition tuition_json :: "tuition_data \<Rightarrow> json" where
  "tuition_json td =
     JDict [(''regular_program'', JDict (map (\<lambda>(k, f). (k, fee_json f)) (regular_program td))),
            (''specialized_program'',
               JDict (map (\<lambda>(k, f). (k, fee_json f)) (specialized_program td))),
            (''additional_fees'', JDict (map (\<lambda>(k, v). (k, JStr v)) (additional_fees td))),
            (''other_fees'', JDict (map (\<lambda>(k, v). (k, JStr v)) (other_fees td)))]"

definition tuition_body :: "tuition_page \<Rightarrow> (exn + json) \<times> query list" where
  "tuition_body page =
     (case tp_table page of
        None \<Rightarrow> (Inr (error_result ''Tuition fee table not found''), [SelectOne ''table.table''])
      | Some rows \<Rightarrow>
          let td = snd (scan_rows rows empty_tuition_data) in
          (case tp_content_fees page of
             Inl e \<Rightarrow> (Inl e, [SelectOne ''table.table'',
                               SelectOne ''section.rich-text-block div.content''])
           | Inr (additional, other) \<Rightarrow>
               let td = td\<lparr>additional_fees := additional, other_fees := other\<rparr> in
               if regular_program td = [] \<and> specialized_program td = []
               then (Inr (success_result (tuition_json (alt_tables (tp_tables page) td))),
                     [SelectOne ''table.table'',
                      SelectOne ''section.rich-text-block div.content'', FindAll ''table''])
               else (Inr (success_result (tuition_json td)),
                     [SelectOne ''table.table'',
                      SelectOne ''section.rich-text-block div.content''])))"

text \<open>
  \<open>fetched\<close> is the outcome of \<open>session_manager.get(url)\<close> and of the parse: the page, or
  the exception raised.
\<close>

definition scrape_tuition_fees :: "exn + tuition_page \<Rightarrow> json \<times> query list" where
  "scrape_tuition_fees fetched =
     (case fetched of
        Inl e \<Rightarrow> (guarded (Inl e), [])
      | Inr page \<Rightarrow> (guarded (fst (tuition_body page)), snd (tuition_body page)))"

subsection \<open>Enrollment process\<close>

text \<open>
  The requirements page as \<open>parse_requirements_data\<close> reads it. An \<open>accordion\<close> is one
  \<open>.accordion-wrapper\<close> of \<open>div.tabs.style-standard\<close>: \<open>ac_header\<close> is the text of
  \<open>.accordion-header h4\<close>, \<open>ac_content\<close> is \<open>.accordion-content .tab-content .content\<close> and
  \<open>ac_content_alt\<close> the alternate path \<open>.accordion-content .content\<close>. In a content node,
  \<open>gc_forms\<close> is the list after the \<open>Forms\<close> heading (each item with the \<open>href\<close> of its
  link, if it has a link) and \<open>gc_requirements\<close> the list after the \<open>Requirements\<close> heading;
  \<open>None\<close> when the heading or its list is missing.
\<close>

record list_item =
  li_text :: string
  li_link :: "string option"

record grade_content =
  gc_forms :: "list_item list option"
  gc_requirements :: "string list option"

record accordion =
  ac_header :: "string option"
  ac_content :: "grade_content option"
  ac_content_alt :: "grade_content option"

record grade_data =
  forms :: "(string \<times> string) list"
  requirements :: "string list"

definition parse_grade :: "grade_content \<Rightarrow> grade_data" where
  "parse_grade content_div =
     \<lparr>forms = (case gc_forms content_div of
                  None \<Rightarrow> []
                | Some items \<Rightarrow>
                    concat (map (\<lambda>item. case li_link item of
                                          None \<Rightarrow> []
                                        | Some href \<Rightarrow> [(li_text item, href)]) items)),
      requirements = (case gc_requirements content_div of None \<Rightarrow> [] | Some items \<Rightarrow> items)\<rparr>"

definition parse_accordion ::
  "(string \<times> grade_data) list \<Rightarrow> accordion \<Rightarrow> (string \<times> grade_data) list" where
  "parse_accordion requirements_data acc =
     (case ac_header acc of
        None \<Rightarrow> requirements_data
      | Some grade_name \<Rightarrow>
          (case (case ac_content acc of Some c \<Rightarrow> Some c | None \<Rightarrow> ac_content_alt acc) of
             None \<Rightarrow> requirements_data
           | Some content_div \<Rightarrow>
               AList.update grade_name (parse_grade content_div) requirements_data))"

definition parse_requirements_data :: "accordion list option \<Rightarrow> (string \<times> grade_data) list" where
  "parse_requirements_data tabs_container =
     (case tabs_container of
        None \<Rightarrow> []
      | Some accordion_sections \<Rightarrow> foldl parse_accordion [] accordion_sections)"

text \<open>\<open>collections.Counter\<close>: the keys in order of first occurrence, each with its count.\<close>

fun counter_add :: "string \<Rightarrow> (string \<times> nat) list \<Rightarrow> (string \<times> nat) list" where
  "counter_add x [] = [(x, 1)]"
| "counter_add x ((k, n) # kvs) =
     (if k = x then (k, Suc n) # kvs else (k, n) # counter_add x kvs)"

definition Counter :: "string list \<Rightarrow> (string \<times> nat) list" where
  "Counter xs = foldl (\<lambda>c x. counter_add x c) [] xs"

definition all_requirements :: "(string \<times> grade_data) list \<Rightarrow> string list" where
  "all_requirements grade_requirements = concat (map (\<lambda>(grade_name, gd). requirements gd) grade_requirements)"

definition common_threshold :: "(string \<times> grade_data) list \<Rightarrow> nat" where
  "common_threshold grade_requirements = length grade_requirements div 2"

definition common_requirements :: "(string \<times> grade_data) list \<Rightarrow> string list" where
  "common_requirements grade_requirements =
     map fst (filter (\<lambda>(req, count). count \<ge> common_threshold grade_requirements)
                     (Counter (all_requirements grade_requirements)))"

text \<open>
  The page as \<open>scrape_enrollment_process\<close> reads it: the text of \<open>section.lead-text\<close>, the
  texts of the \<open>.tab-title\<close> nodes of the accordion, and for each \<open>.accordion-content\<close> its
  text and the texts of its list items.
\<close>

record enrollment_page =
  ep_overview :: "string option"
  ep_process_tabs :: "string list"
  ep_process_contents :: "(string \<times> string list) list"
  ep_tabs_container :: "accordion list option"

record step =
  st_title :: string
  st_description :: string
  st_items :: "string list option"

record enrollment_data =
  en_overview :: string
  en_steps :: "step list"
  en_requirements :: "string list"
  en_grade_requirements :: "(string \<times> grade_data) list"

definition process_steps :: "string list \<Rightarrow> (string \<times> string list) list \<Rightarrow> step list" where
  "process_steps process_tabs process_contents =
     (if process_tabs \<noteq> [] \<and> length process_tabs = length process_contents
      then map (\<lambda>(tab, content, list_items).
                  \<lparr>st_title = tab, st_description = content,
                   st_items = (if list_items \<noteq> [] then Some list_items else None)\<rparr>)
               (zip process_tabs process_contents)
      else [])"

definition enrollment_of :: "enrollment_page \<Rightarrow> enrollment_data" where
  "enrollment_of page =
     (let overview = (case ep_overview page of Some t \<Rightarrow> t | None \<Rightarrow> []);
          steps = process_steps (ep_process_tabs page) (ep_process_contents page);
          grade_requirements = parse_requirements_data (ep_tabs_container page)
      in if grade_requirements \<noteq> []
         then \<lparr>en_overview = overview, en_steps = steps,
               en_requirements = common_requirements grade_requirements,
               en_grade_requirements = grade_requirements\<rparr>
         else \<lparr>en_overview = overview, en_steps = steps,
               en_requirements = [], en_grade_requirements = []\<rparr>)"

definition step_json :: "step \<Rightarrow> json" where
  "step_json s =
     JDict ([(''title'', JStr (st_title s)), (''description'', JStr (st_description s))] @
            (case st_items s of None \<Rightarrow> [] | Some items \<Rightarrow> [(''items'', JList (map JStr items))]))"

definition grade_json :: "grade_data \<Rightarrow> json" where
  "grade_json gd =
     JDict [(''forms'', JList (map (\<lambda>(n, u). JDict [(''name'', JStr n), (''url'', JStr u)])
                                   (forms gd))),
            (''requirements'', JList (map JStr (requirements gd)))]"

definition enrollment_json :: "enrollment_data \<Rightarrow> json" where
  "enrollment_json ed =
     JDict [(''overview'', JStr (en_overview ed)),
            (''steps'', JList (map step_json (en_steps ed))),
            (''requirements'', JList (map JStr (en_requirements ed))),
            (''grade_requirements'',
               JDict (map (\<lambda>(g, gd). (g, grade_json gd)) (en_grade_requirements ed)))]"

definition scrape_enrollment_process :: "exn + enrollment_page \<Rightarrow> json" where
  "scrape_enrollment_process fetched =
     guarded (case fetched of
                Inl e \<Rightarrow> Inl e
              | Inr page \<Rightarrow> Inr (success_result (enrollment_json (enrollment_of page))))"

subsection \<open>Curriculum, scholarships and contact information\<close>

text \<open>
  Each of these methods is one \<open>try\<close> block that ends in
  \<^verbatim>\<open>return {"status": "success", "data": ...}\<close> and has no other \<open>return\<close>. The
  argument is the outcome of the block up to that statement: the payload, or the
  exception raised by the fetch or by the extraction.
\<close>

definition scrape_curriculum :: "exn + json \<Rightarrow> json" where
  "scrape_curriculum body =
     guarded (case body of Inl e \<Rightarrow> Inl e | Inr curriculum_data \<Rightarrow> Inr (success_result curriculum_data))"

definition scrape_scholarships :: "exn + json \<Rightarrow> json" where
  "scrape_scholarships body =
     guarded (case body of Inl e \<Rightarrow> Inl e | Inr scholarship_data \<Rightarrow> Inr (success_result scholarship_data))"

definition scrape_contact_info :: "exn + json \<Rightarrow> json" where
  "scrape_contact_info body =
     guarded (case body of Inl e \<Rightarrow> Inl e | Inr contact_data \<Rightarrow> Inr (success_result contact_data))"

subsection \<open>The aggregate scrape\<close>

text \<open>
  \<open>close_playwright\<close> lives in \<open>services/playwright_manager\<close>, outside the sources at hand:
  its behaviour is a parameter. \<open>close k\<close> is the outcome of its invocation number \<open>k\<close>
  (counting from 0) during one \<open>scrape\<close>: \<open>None\<close> when it returns, \<open>Some e\<close> when it raises.

  \<open>close_after close body\<close> is the \<open>try\<close>/\<open>except\<close> of every \<open>scrape\<close>, where \<open>body\<close> is
  the outcome of the \<open>try\<close> block up to the call of \<open>close_playwright\<close>. It gives what
  \<open>scrape\<close> returns or raises, and the number of invocations of \<open>close_playwright\<close>.
\<close>

type_synonym teardown = "nat \<Rightarrow> exn option"

definition close_after :: "teardown \<Rightarrow> exn + json \<Rightarrow> (exn + json) \<times> nat" where
  "close_after close body =
     (case body of
        Inr results \<Rightarrow>
          (case close 0 of
             None \<Rightarrow> (Inr results, 1)
           | Some e \<Rightarrow>
               (case close 1 of
                  None \<Rightarrow> (Inl e, 2)
                | Some e' \<Rightarrow> (Inl (raised_while_handling e' e), 2)))
      | Inl e \<Rightarrow>
          (case close 0 of
             None \<Rightarrow> (Inl e, 1)
           | Some e' \<Rightarrow> (Inl (raised_while_handling e' e), 1)))"

definition try_bind :: "exn + 'a \<Rightarrow> ('a \<Rightarrow> exn + 'b) \<Rightarrow> exn + 'b" where
  "try_bind m f = (case m of Inl e \<Rightarrow> Inl e | Inr x \<Rightarrow> f x)"

text \<open>\<^verbatim>\<open>r["data"] if r["status"] == "success" else r\<close>\<close>

definition data_if_success :: "json \<Rightarrow> exn + json" where
  "data_if_success r =
     try_bind (getitem r ''status'')
       (\<lambda>s. if s = JStr ''success'' then getitem r ''data'' else Inr r)"

text \<open>The record that \<open>scrape\<close> builds: the name and the five category fields.\<close>

definition output_record :: "string \<Rightarrow> json \<Rightarrow> json \<Rightarrow> json \<Rightarrow> json \<Rightarrow> json \<Rightarrow> json" where
  "output_record name t c en s ct =
     JDict [(''name'', JStr name), (''tuition_fees'', t), (''curriculum'', c),
            (''enrollment_process'', en), (''scholarships'', s), (''contact_info'', ct)]"

text \<open>
  The record of the extractors that unwrap a successful result (ISM, RIS and SSM); the
  other extractors put the five results into the record as they are.
\<close>

definition unwrapped_results ::
  "string \<Rightarrow> json \<Rightarrow> json \<Rightarrow> json \<Rightarrow> json \<Rightarrow> json \<Rightarrow> exn + json" where
  "unwrapped_results name tuition_result curriculum_result enrollment_result scholarship_result
     contact_result =
     try_bind (data_if_success tuition_result) (\<lambda>t.
     try_bind (data_if_success curriculum_result) (\<lambda>c.
     try_bind (data_if_success enrollment_result) (\<lambda>en.
     try_bind (data_if_success scholarship_result) (\<lambda>s.
     try_bind (data_if_success contact_result) (\<lambda>ct.
       Inr (output_record name t c en s ct))))))"

record ism_site =
  ism_tuition :: "exn + tuition_page"
  ism_curriculum :: "exn + json"
  ism_enrollment :: "exn + enrollment_page"
  ism_scholarships :: "exn + json"
  ism_contact :: "exn + json"

definition ism_scrape :: "teardown \<Rightarrow> ism_site \<Rightarrow> (exn + json) \<times> nat" where
  "ism_scrape close site =
     (let tuition_result = fst (scrape_tuition_fees (ism_tuition site));
          curriculum_result = scrape_curriculum (ism_curriculum site);
          enrollment_result = scrape_enrollment_process (ism_enrollment site);
          scholarship_result = scrape_scholarships (ism_scholarships site);
          contact_result = scrape_contact_info (ism_contact site)
      in close_after close
           (unwrapped_results ''International School Manila'' tuition_result curriculum_result
              enrollment_result scholarship_result contact_result))"

section \<open>British School Manila (services/schools/bsm_scraper.py)\<close>

text \<open>
  \<open>int(s)\<close> on ASCII text: surrounding whitespace, an optional sign, and decimal digits
  that single underscores may separate; \<open>None\<close> stands for \<open>ValueError\<close>.
\<close>

definition digit_val :: "char \<Rightarrow> nat option" where
  "digit_val c = map_of (zip ''0123456789'' [0, 1, 2, 3, 4, 5, 6, 7, 8, 9]) c"

fun parse_digits :: "bool \<Rightarrow> nat \<Rightarrow> string \<Rightarrow> nat option" where
  "parse_digits after_digit acc [] = (if after_digit then Some acc else None)"
| "parse_digits after_digit acc (c # cs) =
     (case digit_val c of
        Some d \<Rightarrow> parse_digits True (10 * acc + d) cs
      | None \<Rightarrow>
          if c = CHR ''_'' \<and> after_digit then parse_digits False acc cs else None)"

definition py_int :: "string \<Rightarrow> int option" where
  "py_int s =
     (case strip s of
        [] \<Rightarrow> None
      | c # cs \<Rightarrow>
          if c = CHR ''-'' then map_option (\<lambda>n. - int n) (parse_digits False 0 cs)
          else if c = CHR ''+'' then map_option int (parse_digits False 0 cs)
          else map_option int (parse_digits False 0 (c # cs)))"

text \<open>
  The how-to-apply page as \<open>scrape_enrollment_process\<close> reads it. \<open>bp_tabs_nav\<close> tells
  whether \<open>ul.fsTabsNav\<close> is there; a \<open>panel\<close> is one \<open>section.fsElement.fsPanel\<close>, with the
  \<open>.text\<close> of \<open>h2.fsElementTitle a\<close> and of \<open>span.accordion-number\<close>, and its
  \<open>div.fsElementContent\<close>: the \<open>.text\<close> of the paragraphs of the inner content
  (\<open>None\<close> without an inner section or inner content) and of the \<open>ul li\<close> items.
\<close>

record bsm_content =
  bc_paragraphs :: "string list option"
  bc_list_items :: "string list"

record panel =
  pn_title :: "string option"
  pn_number :: "string option"
  pn_content :: "bsm_content option"

record bsm_enrollment_page =
  bp_tabs_nav :: bool
  bp_panels :: "panel list"

record application_step =
  step_number :: int
  title :: string
  description :: string

text \<open>
  The body of the loop over the panels. \<open>findall_email\<close> is \<open>re.findall\<close> with the e-mail
  pattern, a parameter of the model.
\<close>

definition step_number_of :: "nat \<Rightarrow> panel \<Rightarrow> int" where
  "step_number_of i p =
     (case pn_number p of
        None \<Rightarrow> int i + 1
      | Some t \<Rightarrow> (case py_int (strip t) of Some n \<Rightarrow> n | None \<Rightarrow> int i + 1))"

definition description_of :: "bsm_content \<Rightarrow> string" where
  "description_of content_div =
     (case bc_paragraphs content_div of
        None \<Rightarrow> []
      | Some paragraphs \<Rightarrow>
          join '' '' (filter (\<lambda>p_text. p_text \<noteq> [] \<and> \<not> startswith p_text ''ENQUIRE TODAY'')
                             (map strip paragraphs)))"

definition bsm_panel ::
  "(string \<Rightarrow> string list) \<Rightarrow> application_step list \<times> string list \<times> string \<Rightarrow> nat \<times> panel
     \<Rightarrow> application_step list \<times> string list \<times> string" where
  "bsm_panel findall_email st ip =
     (let application_steps = fst st; application_requirements = fst (snd st);
          contact_email = snd (snd st); i = fst ip; p = snd ip in
      case pn_title p of
        None \<Rightarrow> st
      | Some title_text \<Rightarrow>
          (case pn_content p of
             None \<Rightarrow> st
           | Some content_div \<Rightarrow>
               let description = description_of content_div;
                   contact_email =
                     (if contact_email = []
                      then (case findall_email description of [] \<Rightarrow> contact_email | m # ms \<Rightarrow> m)
                      else contact_email);
                   application_requirements =
                     (if contains (strip title_text) ''Requirements''
                         \<or> contains description ''Requirements''
                      then application_requirements @
                           filter (\<lambda>t. t \<noteq> []) (map strip (bc_list_items content_div))
                      else application_requirements)
               in (application_steps @
                     [\<lparr>step_number = step_number_of i p, title = strip title_text,
                       description = description\<rparr>],
                   application_requirements, contact_email)))"

definition bsm_application_steps :: "(string \<Rightarrow> string list) \<Rightarrow> panel list \<Rightarrow> application_step list" where
  "bsm_application_steps findall_email panels =
     sort_key step_number
       (fst (foldl (bsm_panel findall_email) ([], [], []) (enumerate 0 panels)))"

definition application_step_json :: "application_step \<Rightarrow> json" where
  "application_step_json s =
     JDict [(''step_number'', JInt (step_number s)), (''title'', JStr (title s)),
            (''description'', JStr (description s))]"

definition bsm_enrollment_body :: "(string \<Rightarrow> string list) \<Rightarrow> bsm_enrollment_page \<Rightarrow> json" where
  "bsm_enrollment_body findall_email page =
     (if \<not> bp_tabs_nav page then error_result ''Enrollment process information not found''
      else
        let final = foldl (bsm_panel findall_email) ([], [], []) (enumerate 0 (bp_panels page))
        in success_result
             (JDict [(''application_process'',
                        JList (map application_step_json
                                 (bsm_application_steps findall_email (bp_panels page)))),
                     (''requirements'', JList (map JStr (fst (snd final)))),
                     (''contact_email'', JStr (snd (snd final)))]))"

definition bsm_scrape_enrollment_process ::
  "(string \<Rightarrow> string list) \<Rightarrow> exn + bsm_enrollment_page \<Rightarrow> json" where
  "bsm_scrape_enrollment_process findall_email fetched =
     guarded (case fetched of
                Inl e \<Rightarrow> Inl e
              | Inr page \<Rightarrow> Inr (bsm_enrollment_body findall_email page))"

text \<open>The two methods that return a literal, without fetching anything.\<close>

definition bsm_scrape_tuition_fees :: json where
  "bsm_scrape_tuition_fees =
     JDict [(''status'', JStr ''skipped''),
            (''message'', JStr ''Tuition fees scraping is skipped for this school because it is not available on the website.'')]"

definition bsm_scrape_scholarships :: json where
  "bsm_scrape_scholarships =
     JDict [(''status'', JStr ''not_implemented''),
            (''message'', JStr ''No relevant scholarships information found'')]"

text \<open>
  \<open>scrape_curriculum\<close> returns an error when the accordion container is missing (\<open>None\<close>)
  and the key stages otherwise; \<open>scrape_contact_info\<close> has the single success return.
  The argument is the outcome of the \<open>try\<close> block up to the \<open>return\<close>.
\<close>

definition bsm_scrape_curriculum :: "exn + json option \<Rightarrow> json" where
  "bsm_scrape_curriculum body =
     guarded (case body of
                Inl e \<Rightarrow> Inl e
              | Inr None \<Rightarrow> Inr (error_result ''Curriculum information not found'')
              | Inr (Some curriculum_data) \<Rightarrow> Inr (success_result curriculum_data))"

definition bsm_scrape_contact_info :: "exn + json \<Rightarrow> json" where
  "bsm_scrape_contact_info body =
     guarded (case body of Inl e \<Rightarrow> Inl e | Inr contact_data \<Rightarrow> Inr (success_result contact_data))"

record bsm_site =
  bsm_curriculum :: "exn + json option"
  bsm_enrollment :: "exn + bsm_enrollment_page"
  bsm_contact :: "exn + json"

definition bsm_scrape :: "teardown \<Rightarrow> (string \<Rightarrow> string list) \<Rightarrow> bsm_site \<Rightarrow> (exn + json) \<times> nat" where
  "bsm_scrape close findall_email site =
     (let tuition_result = bsm_scrape_tuition_fees;
          curriculum_result = bsm_scrape_curriculum (bsm_curriculum site);
          enrollment_result = bsm_scrape_enrollment_process findall_email (bsm_enrollment site);
          scholarship_result = bsm_scrape_scholarships;
          contact_result = bsm_scrape_contact_info (bsm_contact site)
      in close_after close
           (Inr (output_record ''British School Manila'' tuition_result curriculum_result
                   enrollment_result scholarship_result contact_result)))"


section \<open>The other site extractors\<close>

text \<open>
  The wrappers of the remaining statuses, with their keys in the order of the source.
\<close>

definition warning_result :: "string \<Rightarrow> json \<Rightarrow> json" where
  "warning_result m d = JDict [(''status'', JStr ''warning''), (''message'', JStr m), (''data'', d)]"

definition partial_result :: "string \<Rightarrow> json \<Rightarrow> json" where
  "partial_result m d = JDict [(''status'', JStr ''partial''), (''message'', JStr m), (''data'', d)]"

definition skipped_result :: "string \<Rightarrow> json" where
  "skipped_result m = JDict [(''status'', JStr ''skipped''), (''message'', JStr m)]"

definition not_implemented_result :: "string \<Rightarrow> json" where
  "not_implemented_result m = JDict [(''status'', JStr ''not_implemented''), (''message'', JStr m)]"

text \<open>
  The category methods of these five extractors are modelled by their \<open>return\<close>
  statements. The argument of a method is the outcome of its \<open>try\<close> block up to the
  point where the result is chosen: the exception raised by the fetch or by the
  extraction, or what the extraction found. Three shapes recur:
  a block with the single success return; a block that returns a fixed error when its
  container is not on the page (\<open>None\<close>); and a block that returns a warning when it
  found nothing.
\<close>

definition returns_success :: "exn + json \<Rightarrow> json" where
  "returns_success body =
     guarded (case body of Inl e \<Rightarrow> Inl e | Inr d \<Rightarrow> Inr (success_result d))"

definition found_or_error :: "string \<Rightarrow> exn + json option \<Rightarrow> json" where
  "found_or_error m body =
     guarded (case body of
                Inl e \<Rightarrow> Inl e
              | Inr None \<Rightarrow> Inr (error_result m)
              | Inr (Some d) \<Rightarrow> Inr (success_result d))"

subsection \<open>Faith Academy (services/schools/faith_scraper.py)\<close>

definition faith_scrape_tuition_fees :: "exn + json \<Rightarrow> json" where
  "faith_scrape_tuition_fees body = returns_success body"

definition faith_scrape_curriculum :: "exn + json \<Rightarrow> json" where
  "faith_scrape_curriculum body = returns_success body"

definition faith_scrape_enrollment_process :: "exn + json \<Rightarrow> json" where
  "faith_scrape_enrollment_process body = returns_success body"

text \<open>The \<open>try\<close> block of \<open>scrape_scholarships\<close> holds nothing but this \<open>return\<close>.\<close>

definition faith_scrape_scholarships :: json where
  "faith_scrape_scholarships =
     JDict [(''status'', JStr ''success''), (''introduction'', JStr []), (''data'', JList [])]"

definition faith_scrape_contact_info :: "exn + json \<Rightarrow> json" where
  "faith_scrape_contact_info body = returns_success body"

record faith_site =
  faith_tuition :: "exn + json"
  faith_curriculum :: "exn + json"
  faith_enrollment :: "exn + json"
  faith_contact :: "exn + json"

definition faith_scrape :: "teardown \<Rightarrow> faith_site \<Rightarrow> (exn + json) \<times> nat" where
  "faith_scrape close site =
     close_after close
       (Inr (output_record ''Faith Academy''
               (faith_scrape_tuition_fees (faith_tuition site))
               (faith_scrape_curriculum (faith_curriculum site))
               (faith_scrape_enrollment_process (faith_enrollment site))
               faith_scrape_scholarships
               (faith_scrape_contact_info (faith_contact site))))"

subsection \<open>Reedley International School (services/schools/ris_scraper.py)\<close>

definition ris_scrape_tuition_fees :: json where
  "ris_scrape_tuition_fees =
     skipped_result ''Tuition fees scraping is skipped for this school because it is not available on the website.''"

definition ris_scrape_curriculum :: "exn + json \<Rightarrow> json" where
  "ris_scrape_curriculum body = returns_success body"

definition ris_scrape_enrollment_process :: "exn + json \<Rightarrow> json" where
  "ris_scrape_enrollment_process body = returns_success body"

definition ris_scrape_scholarships :: json where
  "ris_scrape_scholarships =
     skipped_result ''Tuition fees scraping is skipped for this school because it is not available on the website.''"

definition ris_scrape_contact_info :: "exn + json \<Rightarrow> json" where
  "ris_scrape_contact_info body = returns_success body"

record ris_site =
  ris_curriculum :: "exn + json"
  ris_enrollment :: "exn + json"
  ris_contact :: "exn + json"

definition ris_scrape :: "teardown \<Rightarrow> ris_site \<Rightarrow> (exn + json) \<times> nat" where
  "ris_scrape close site =
     close_after close
       (unwrapped_results ''Reedley International School''
          ris_scrape_tuition_fees
          (ris_scrape_curriculum (ris_curriculum site))
          (ris_scrape_enrollment_process (ris_enrollment site))
          ris_scrape_scholarships
          (ris_scrape_contact_info (ris_contact site)))"

subsection \<open>Singapore School Manila (services/schools/ssm_scraper.py)\<close>

text \<open>
  The tuition dictionary of SSM, with the optional \<open>notes\<close> that the admission page may
  add. The outcome of the \<open>try\<close> block of \<open>scrape_tuition_fees\<close> tells whether the content
  section of the tuition page was found, and holds the dictionary as filled by then.
\<close>

record ssm_tuition_data =
  sr_regular_program :: "(string \<times> json) list"
  sr_additional_fees :: "(string \<times> json) list"
  sr_payment_schemes :: "(string \<times> json) list"
  sr_application_fees :: "(string \<times> json) list"
  sr_notes :: "string option"

definition ssm_categories :: "ssm_tuition_data \<Rightarrow> (string \<times> (string \<times> json) list) list" where
  "ssm_categories td =
     [(''regular_program'', sr_regular_program td), (''additional_fees'', sr_additional_fees td),
      (''payment_schemes'', sr_payment_schemes td), (''application_fees'', sr_application_fees td)]"

definition ssm_notes_json :: "ssm_tuition_data \<Rightarrow> (string \<times> json) list" where
  "ssm_notes_json td = (case sr_notes td of None \<Rightarrow> [] | Some note \<Rightarrow> [(''notes'', JStr note)])"

definition ssm_tuition_json :: "ssm_tuition_data \<Rightarrow> json" where
  "ssm_tuition_json td =
     JDict (map (\<lambda>(k, v). (k, JDict v)) (ssm_categories td) @ ssm_notes_json td)"

text \<open>\<^verbatim>\<open>if not tuition_data[category] and category != "notes": del tuition_data[category]\<close>\<close>

definition ssm_tuition_cleaned :: "ssm_tuition_data \<Rightarrow> json" where
  "ssm_tuition_cleaned td =
     JDict (map (\<lambda>(k, v). (k, JDict v)) (filter (\<lambda>(k, v). v \<noteq> []) (ssm_categories td))
            @ ssm_notes_json td)"

definition ssm_scrape_tuition_fees :: "exn + bool \<times> ssm_tuition_data \<Rightarrow> json" where
  "ssm_scrape_tuition_fees body =
     guarded (case body of
                Inl e \<Rightarrow> Inl e
              | Inr (content_section_found, td) \<Rightarrow>
                  if \<not> content_section_found then
                    if sr_application_fees td \<noteq> []
                    then Inr (partial_result ''Only application fees found'' (ssm_tuition_json td))
                    else Inr (error_result ''Tuition content section not found'')
                  else if sr_regular_program td = [] \<and> sr_additional_fees td = []
                          \<and> sr_payment_schemes td = [] \<and> sr_application_fees td = []
                  then Inr (warning_result ''No tuition fee information extracted''
                              (ssm_tuition_json td))
                  else Inr (success_result (ssm_tuition_cleaned td)))"

text \<open>
  \<open>scrape_curriculum\<close> and \<open>scrape_enrollment_process\<close> return a warning with the data
  when the programs, respectively the steps, are empty: the outcome tells whether they
  are, and holds the data.
\<close>

definition ssm_scrape_curriculum :: "exn + bool \<times> json \<Rightarrow> json" where
  "ssm_scrape_curriculum body =
     guarded (case body of
                Inl e \<Rightarrow> Inl e
              | Inr (programs_found, curriculum_data) \<Rightarrow>
                  if \<not> programs_found
                  then Inr (warning_result ''No curriculum information found'' curriculum_data)
                  else Inr (success_result curriculum_data))"

definition ssm_scrape_enrollment_process :: "exn + bool \<times> json \<Rightarrow> json" where
  "ssm_scrape_enrollment_process body =
     guarded (case body of
                Inl e \<Rightarrow> Inl e
              | Inr (steps_found, enrollment_data) \<Rightarrow>
                  if \<not> steps_found
                  then Inr (warning_result ''No enrollment steps found'' enrollment_data)
                  else Inr (success_result enrollment_data))"

definition ssm_scrape_scholarships :: json where
  "ssm_scrape_scholarships =
     skipped_result ''Scholarship information scraping is skipped for this school because it is not available on the website.''"

definition ssm_scrape_contact_info :: "exn + json \<Rightarrow> json" where
  "ssm_scrape_contact_info body = returns_success body"

record ssm_site =
  ssm_tuition :: "exn + bool \<times> ssm_tuition_data"
  ssm_curriculum :: "exn + bool \<times> json"
  ssm_enrollment :: "exn + bool \<times> json"
  ssm_contact :: "exn + json"

definition ssm_scrape :: "teardown \<Rightarrow> ssm_site \<Rightarrow> (exn + json) \<times> nat" where
  "ssm_scrape close site =
     close_after close
       (unwrapped_results ''Singapore School Manila''
          (ssm_scrape_tuition_fees (ssm_tuition site))
          (ssm_scrape_curriculum (ssm_curriculum site))
          (ssm_scrape_enrollment_process (ssm_enrollment site))
          ssm_scrape_scholarships
          (ssm_scrape_contact_info (ssm_contact site)))"

subsection \<open>Victory Christian International School (services/schools/vcis_scraper.py)\<close>

definition vcis_scrape_tuition_fees :: json where
  "vcis_scrape_tuition_fees =
     skipped_result ''Tuition fees scraping is skipped for this school because it is not available on the website.''"

text \<open>The outcome of \<open>scrape_curriculum\<close> is the list of the programs found.\<close>

definition vcis_scrape_curriculum :: "exn + json list \<Rightarrow> json" where
  "vcis_scrape_curriculum body =
     guarded (case body of
                Inl e \<Rightarrow> Inl e
              | Inr curriculum_data \<Rightarrow>
                  if curriculum_data \<noteq> [] then Inr (success_result (JList curriculum_data))
                  else Inr (warning_result ''No curriculum information found'' (JList [])))"

definition vcis_scrape_enrollment_process :: json where
  "vcis_scrape_enrollment_process =
     not_implemented_result ''Enrollment process scraping is not yet implemented for this school.''"

definition vcis_scrape_scholarships :: json where
  "vcis_scrape_scholarships = not_implemented_result ''No relevant scholarships information found''"

text \<open>
  The outcome of \<open>scrape_contact_info\<close> tells whether a phone number or an e-mail address
  was found, and holds the contact data.
\<close>

definition vcis_scrape_contact_info :: "exn + bool \<times> json \<Rightarrow> json" where
  "vcis_scrape_contact_info body =
     guarded (case body of
                Inl e \<Rightarrow> Inl e
              | Inr (phone_or_email, contact_data) \<Rightarrow>
                  if phone_or_email then Inr (success_result contact_data)
                  else Inr (warning_result ''Limited contact information found'' contact_data))"

record vcis_site =
  vcis_curriculum :: "exn + json list"
  vcis_contact :: "exn + bool \<times> json"

definition vcis_scrape :: "teardown \<Rightarrow> vcis_site \<Rightarrow> (exn + json) \<times> nat" where
  "vcis_scrape close site =
     close_after close
       (Inr (output_record ''Victory Christian International School''
               vcis_scrape_tuition_fees
               (vcis_scrape_curriculum (vcis_curriculum site))
               vcis_scrape_enrollment_process
               vcis_scrape_scholarships
               (vcis_scrape_contact_info (vcis_contact site))))"

subsection \<open>Chinese International School Manila (services/schools/cism_scraper.py)\<close>

text \<open>
  The fee-structure page as \<open>scrape_tuition_fees\<close> reads it: the table found by the
  specific selector, by the more general selector \<open>div.table_content table\<close>, and by
  \<open>soup.find('table')\<close>. A row is the list of the \<open>.text\<close> of its cells; the first row is
  the header and is skipped.
\<close>

record cism_tuition_page =
  cp_specific :: "row list option"
  cp_general :: "row list option"
  cp_any :: "row list option"

definition cism_row :: "(string \<times> json) list \<Rightarrow> row \<Rightarrow> (string \<times> json) list" where
  "cism_row tuition_data cells =
     (if length cells \<ge> 4 then
        let grade_level = strip (cells ! 0);
            annual = strip (cells ! 1);
            semestral = strip (cells ! 2);
            quarterly = strip (cells ! 3)
        in if grade_level \<noteq> []
           then AList.update grade_level
                  (JDict [(''Annual'', JStr annual), (''Semestral'', JStr semestral),
                          (''Quarterly'', JStr quarterly)]) tuition_data
           else tuition_data
      else tuition_data)"

definition cism_table :: "row list \<Rightarrow> json" where
  "cism_table rows = success_result (JDict (foldl cism_row [] (drop 1 rows)))"

definition cism_tuition_body :: "cism_tuition_page \<Rightarrow> json \<times> query list" where
  "cism_tuition_body page =
     (case cp_specific page of
        Some rows \<Rightarrow>
          (cism_table rows,
           [SelectOne ''div.accordion_container div.item_content div.table_content table''])
      | None \<Rightarrow>
          (case cp_general page of
             Some rows \<Rightarrow>
               (cism_table rows,
                [SelectOne ''div.accordion_container div.item_content div.table_content table'',
                 SelectOne ''div.table_content table''])
           | None \<Rightarrow>
               (case cp_any page of
                  Some rows \<Rightarrow>
                    (cism_table rows,
                     [SelectOne ''div.accordion_container div.item_content div.table_content table'',
                      SelectOne ''div.table_content table'', Find ''table''])
                | None \<Rightarrow>
                    (error_result ''Tuition fee table not found'',
                     [SelectOne ''div.accordion_container div.item_content div.table_content table'',
                      SelectOne ''div.table_content table'', Find ''table'']))))"

definition cism_scrape_tuition_fees :: "exn + cism_tuition_page \<Rightarrow> json \<times> query list" where
  "cism_scrape_tuition_fees fetched =
     (case fetched of
        Inl e \<Rightarrow> (guarded (Inl e), [])
      | Inr page \<Rightarrow> (guarded (Inr (fst (cism_tuition_body page))), snd (cism_tuition_body page)))"

text \<open>
  The next methods return a fixed error when none of their selectors finds a container
  (\<open>None\<close>), and \<open>scrape_contact_info\<close> has the single success return.
\<close>

definition cism_scrape_curriculum :: "exn + json option \<Rightarrow> json" where
  "cism_scrape_curriculum body = found_or_error ''Curriculum information not found'' body"

definition cism_scrape_enrollment_process :: "exn + json option \<Rightarrow> json" where
  "cism_scrape_enrollment_process body =
     found_or_error ''Enrollment process information not found'' body"

text \<open>The success result of \<open>scrape_scholarships\<close> carries the introduction as well.\<close>

definition cism_scrape_scholarships :: "exn + (string \<times> json) option \<Rightarrow> json" where
  "cism_scrape_scholarships body =
     guarded (case body of
                Inl e \<Rightarrow> Inl e
              | Inr None \<Rightarrow> Inr (error_result ''Scholarship information not found'')
              | Inr (Some (introduction, scholarship_data)) \<Rightarrow>
                  Inr (JDict [(''status'', JStr ''success''),
                              (''introduction'', JStr introduction),
                              (''data'', scholarship_data)]))"

definition cism_scrape_contact_info :: "exn + json \<Rightarrow> json" where
  "cism_scrape_contact_info body = returns_success body"

record cism_site =
  cism_tuition :: "exn + cism_tuition_page"
  cism_curriculum :: "exn + json option"
  cism_enrollment :: "exn + json option"
  cism_scholarships :: "exn + (string \<times> json) option"
  cism_contact :: "exn + json"

definition cism_scrape :: "teardown \<Rightarrow> cism_site \<Rightarrow> (exn + json) \<times> nat" where
  "cism_scrape close site =
     close_after close
       (Inr (output_record ''Chinese International School Manila''
               (fst (cism_scrape_tuition_fees (cism_tuition site)))
               (cism_scrape_curriculum (cism_curriculum site))
               (cism_scrape_enrollment_process (cism_enrollment site))
               (cism_scrape_scholarships (cism_scholarships site))
               (cism_scrape_contact_info (cism_contact site))))"


section \<open>Dispatch (app.py)\<close>

text \<open>
  The registry is the dictionary that \<open>load_scrapers\<close> returns, in insertion order: the name
  of a scraper class without its \<open>Scraper\<close> suffix, and the class.
\<close>

datatype scraper_class =
  ISMScraper | BSMScraper | CISMScraper | FaithScraper | RISScraper | SSMScraper | VCISScraper

type_synonym registry = "(string \<times> scraper_class) list"

text \<open>\<open>s.split()\<close>: the maximal runs of characters that are not whitespace.\<close>

function split_ws :: "string \<Rightarrow> string list" where
  "split_ws s =
     (if dropWhile is_space s = [] then []
      else takeWhile (\<lambda>c. \<not> is_space c) (dropWhile is_space s) #
           split_ws (dropWhile (\<lambda>c. \<not> is_space c) (dropWhile is_space s)))"
  by pat_completeness auto
termination
proof (relation "measure length")
  show "wf (measure length)" by simp
next
  fix s :: string
  assume ne: "dropWhile is_space s \<noteq> []"
  then obtain c cs where w: "dropWhile is_space s = c # cs"
    by (cases "dropWhile is_space s") auto
  then have "\<not> is_space c"
    using hd_dropWhile [of is_space s] ne by auto
  then have "length (dropWhile (\<lambda>c. \<not> is_space c) (c # cs)) \<le> length cs"
    by (simp add: length_dropWhile_le)
  moreover have "length (c # cs) \<le> length s"
    using length_dropWhile_le [of is_space s] w by simp
  ultimately show "(dropWhile (\<lambda>c. \<not> is_space c) (dropWhile is_space s), s) \<in> measure length"
    using w by simp
qed

definition remove_spaces :: "string \<Rightarrow> string" where
  "remove_spaces s = filter (\<lambda>c. c \<noteq> CHR 0x20) s"

text \<open>\<open>word[0]\<close> of a word longer than one character is \<open>take 1 word\<close>.\<close>

definition initials_of :: "string \<Rightarrow> string" where
  "initials_of school =
     concat (map (take 1) (filter (\<lambda>word. length word > 1) (split_ws school)))"

fun direct_match :: "registry \<Rightarrow> string \<Rightarrow> (string \<times> scraper_class) option" where
  "direct_match [] school = None"
| "direct_match ((scraper_key, scraper_cls) # rest) school =
     (if contains (lower (remove_spaces school)) (lower scraper_key)
      then Some (scraper_key, scraper_cls)
      else direct_match rest school)"

fun initials_match :: "registry \<Rightarrow> string \<Rightarrow> (string \<times> scraper_class) option" where
  "initials_match [] initials = None"
| "initials_match ((scraper_key, scraper_cls) # rest) initials =
     (if lower scraper_key = lower initials
      then Some (scraper_key, scraper_cls)
      else initials_match rest initials)"

fun partial_match :: "registry \<Rightarrow> string list \<Rightarrow> (string \<times> scraper_class) option" where
  "partial_match [] school_parts = None"
| "partial_match ((scraper_key, scraper_cls) # rest) school_parts =
     (if list_ex (\<lambda>part. length part > 2 \<and> contains (lower scraper_key) part) school_parts
      then Some (scraper_key, scraper_cls)
      else partial_match rest school_parts)"

text \<open>The scraper chosen for a school, with the notice shown to the user.\<close>

definition choose_scraper :: "registry \<Rightarrow> string \<Rightarrow> string \<times> scraper_class" where
  "choose_scraper scrapers school =
     (case direct_match scrapers school of
        Some (class_name, scraper_cls) \<Rightarrow>
          (''Using '' @ class_name @ ''Scraper for '' @ school, scraper_cls)
      | None \<Rightarrow>
          (case initials_match scrapers (initials_of school) of
             Some (scraper_key, scraper_cls) \<Rightarrow>
               (''Using '' @ scraper_key @ ''Scraper for '' @ school @ '' based on initials match'',
                scraper_cls)
           | None \<Rightarrow>
               (case partial_match scrapers (split_ws (lower school)) of
                  Some (scraper_key, scraper_cls) \<Rightarrow>
                    (''Using '' @ scraper_key @ ''Scraper for '' @ school
                       @ '' based on partial match'', scraper_cls)
                | None \<Rightarrow>
                    (''No specific scraper found for '' @ school @ ''. Using default ISMScraper'',
                     ISMScraper))))"

text \<open>
  A catalog record has a name and its URL fields. The loop of \<open>run_scrapers\<close> appends one
  task per selected school that the catalog knows: the notice, the class and the record.
\<close>

record catalog_entry =
  ce_name :: string
  ce_fields :: school

type_synonym task = "string \<times> scraper_class \<times> catalog_entry"

definition add_task :: "catalog_entry list \<Rightarrow> registry \<Rightarrow> task list \<Rightarrow> string \<Rightarrow> task list" where
  "add_task school_data_list scrapers tasks school =
     (case find (\<lambda>s. ce_name s = school) school_data_list of
        None \<Rightarrow> tasks
      | Some school_data \<Rightarrow>
          tasks @ [(fst (choose_scraper scrapers school), snd (choose_scraper scrapers school),
                    school_data)])"

definition scraper_tasks :: "string list \<Rightarrow> catalog_entry list \<Rightarrow> registry \<Rightarrow> task list" where
  "scraper_tasks selected_schools school_data_list scrapers =
     foldl (add_task school_data_list scrapers) [] selected_schools"

text \<open>
  \<open>run_scraper\<close> turns an exception of \<open>scrape\<close> into \<open>None\<close>; \<open>run_scrapers\<close> gathers
  the tasks in order. \<open>scrape_of\<close> is the outcome of \<open>scrape\<close> for a class and a record.
\<close>

definition run_scraper :: "(exn + json) \<times> nat \<Rightarrow> json option" where
  "run_scraper outcome = (case fst outcome of Inl e \<Rightarrow> None | Inr results \<Rightarrow> Some results)"

definition run_scrapers ::
  "(scraper_class \<Rightarrow> catalog_entry \<Rightarrow> (exn + json) \<times> nat) \<Rightarrow> string list \<Rightarrow> catalog_entry list
     \<Rightarrow> registry \<Rightarrow> json option list" where
  "run_scrapers scrape_of selected_schools school_data_list scrapers =
     map (\<lambda>(notice, scraper_cls, school_data). run_scraper (scrape_of scraper_cls school_data))
         (scraper_tasks selected_schools school_data_list scrapers)"

section \<open>Notions used in the statements\<close>

text \<open>The six status variants, and the status that a result carries.\<close>

definition statuses :: "string list" where
  "statuses = [''success'', ''partial'', ''warning'', ''skipped'', ''not_implemented'', ''error'']"

definition status_of :: "json \<Rightarrow> string option" where
  "status_of r = (case getitem r ''status'' of Inr (JStr s) \<Rightarrow> Some s | _ \<Rightarrow> None)"

definition has_status :: "json \<Rightarrow> bool" where
  "has_status r = (case status_of r of Some s \<Rightarrow> s \<in> set statuses | None \<Rightarrow> False)"

text \<open>
  A field \<open>v\<close> of the output record stands for the category result \<open>r\<close> when it is the
  payload of a successful \<open>r\<close>, or \<open>r\<close> itself, a wrapper with one of the other statuses.
\<close>

definition payload_or_wrapper :: "json \<Rightarrow> json \<Rightarrow> bool" where
  "payload_or_wrapper r v =
     (if status_of r = Some ''success'' then r = success_result v else has_status r \<and> v = r)"

text \<open>A site of which every page fails to load, and a teardown that always raises.\<close>

definition unreachable_site :: ism_site where
  "unreachable_site =
     \<lparr>ism_tuition = Inl (Exn ''timeout'' None), ism_curriculum = Inl (Exn ''timeout'' None),
      ism_enrollment = Inl (Exn ''timeout'' None), ism_scholarships = Inl (Exn ''timeout'' None),
      ism_contact = Inl (Exn ''timeout'' None)\<rparr>"

definition failing_close :: teardown where
  "failing_close k = Some (Exn ''browser has been closed'' None)"


text \<open>
  The requirements page of the threshold example: four grade levels, \<open>Birth Certificate\<close>
  required in three of them and \<open>Medical Form\<close> in one.
\<close>

definition grade_section :: "string \<Rightarrow> string list \<Rightarrow> accordion" where
  "grade_section grade_name reqs =
     \<lparr>ac_header = Some grade_name,
      ac_content = Some \<lparr>gc_forms = None, gc_requirements = Some reqs\<rparr>,
      ac_content_alt = None\<rparr>"

definition four_grades_page :: enrollment_page where
  "four_grades_page =
     \<lparr>ep_overview = None, ep_process_tabs = [], ep_process_contents = [],
      ep_tabs_container =
        Some [grade_section ''Preschool'' [''Birth Certificate'', ''Medical Form''],
              grade_section ''Elementary'' [''Birth Certificate''],
              grade_section ''Middle School'' [''Birth Certificate''],
              grade_section ''High School'' [''Report Card'']]\<rparr>"

text \<open>Pages whose steps come in the document order Step 3, Step 1, Step 2.\<close>

definition shuffled_ism_page :: enrollment_page where
  "shuffled_ism_page =
     \<lparr>ep_overview = None, ep_process_tabs = [''Step 3'', ''Step 1'', ''Step 2''],
      ep_process_contents = [(''Interview'', []), (''Inquire'', []), (''Apply'', [])],
      ep_tabs_container = None\<rparr>"

definition numbered_panel :: "string \<Rightarrow> string \<Rightarrow> panel" where
  "numbered_panel number title_text =
     \<lparr>pn_title = Some title_text, pn_number = Some number,
      pn_content = Some \<lparr>bc_paragraphs = None, bc_list_items = []\<rparr>\<rparr>"

definition shuffled_panels :: "panel list" where
  "shuffled_panels =
     [numbered_panel ''3'' ''Step 3'', numbered_panel ''1'' ''Step 1'',
      numbered_panel ''2'' ''Step 2'']"

text \<open>The steps that the loop of the BSM method collects, in document order.\<close>

definition bsm_collected_steps :: "(string \<Rightarrow> string list) \<Rightarrow> panel list \<Rightarrow> application_step list" where
  "bsm_collected_steps findall_email panels =
     fst (foldl (bsm_panel findall_email) ([], [], []) (enumerate 0 panels))"

text \<open>Whether the catalog knows a school name.\<close>

definition in_catalog :: "catalog_entry list \<Rightarrow> string \<Rightarrow> bool" where
  "in_catalog school_data_list school = list_ex (\<lambda>s. ce_name s = school) school_data_list"


text \<open>
  The section that a row opens: in the loop over \<open>table.table\<close>, a row of at least two
  cells whose first cell is not empty and holds a header keyword; in the alternative
  parsing, a row of at least one cell whose first cell holds a header keyword.
  \<open>last_opened h rows\<close> is the section most recently opened in \<open>rows\<close>, \<open>None\<close> before any
  header.
\<close>

definition header_of :: "row \<Rightarrow> string option" where
  "header_of cells =
     (if length cells < 2 \<or> cells ! 0 = [] then None
      else if contains (upper (cells ! 0)) ''REGULAR PROGRAM'' then Some ''regular_program''
      else if contains (upper (cells ! 0)) ''SPECIALIZED''
              \<and> contains (upper (cells ! 0)) ''PROGRAM''
      then Some ''specialized_program''
      else None)"

definition alt_header_of :: "row \<Rightarrow> string option" where
  "alt_header_of cells =
     (if length cells < 1 then None
      else if contains (upper (cells ! 0)) ''REGULAR PROGRAM''
              \<or> contains (upper (cells ! 0)) ''REGULAR'' \<and> contains (upper (cells ! 0)) ''PROGRAM''
      then Some ''regular_program''
      else if contains (upper (cells ! 0)) ''SPECIALIZED''
              \<and> contains (upper (cells ! 0)) ''PROGRAM''
      then Some ''specialized_program''
      else None)"

definition last_opened :: "(row \<Rightarrow> string option) \<Rightarrow> row list \<Rightarrow> string option" where
  "last_opened h rows =
     foldl (\<lambda>current r. case h r of Some s \<Rightarrow> Some s | None \<Rightarrow> current) None rows"

text \<open>
  The header of the specification: any row whose first cell holds the keyword
  \<open>REGULAR PROGRAM\<close> or \<open>SPECIALIZED PROGRAM\<close>.
\<close>

definition keyword_header :: "row \<Rightarrow> string option" where
  "keyword_header cells =
     (case cells of
        [] \<Rightarrow> None
      | first_cell # rest \<Rightarrow>
          if contains (upper first_cell) ''REGULAR PROGRAM'' then Some ''regular_program''
          else if contains (upper first_cell) ''SPECIALIZED PROGRAM''
          then Some ''specialized_program''
          else None)"

text \<open>The name and the fees that a data row carries in each of the two loops.\<close>

definition row_name :: "row \<Rightarrow> string" where
  "row_name cells = strip (strip_tags (cells ! 0))"

definition row_fee :: "row \<Rightarrow> fee" where
  "row_fee cells = fee_of (cells ! 1) (cells ! 2) (cells ! 3)"

definition alt_row_name :: "row \<Rightarrow> string" where
  "alt_row_name cells = strip (cells ! 0)"

definition alt_row_fee :: "row \<Rightarrow> fee" where
  "alt_row_fee cells =
     fee_of (cells ! 1) (if length cells > 2 then cells ! 2 else [])
       (if length cells > 3 then cells ! 3 else [])"

text \<open>
  The table of the specification, whose header rows have one cell; a table whose first
  header row has two cells and whose second has one; and pages that hold them.
\<close>

definition example_rows :: "row list" where
  "example_rows =
     [[''REGULAR PROGRAM''], [''Grade 1'', ''100'', ''50'', ''50''],
      [''SPECIALIZED PROGRAM''], [''Support A'', ''80'', ''40'', ''40'']]"

definition mixed_rows :: "row list" where
  "mixed_rows =
     [[''REGULAR PROGRAM'', ''Annual''], [''Grade 1'', ''100'', ''50'', ''50''],
      [''SPECIALIZED PROGRAM''], [''Support A'', ''80'', ''40'', ''40'']]"

definition page_of_table :: "row list \<Rightarrow> tuition_page" where
  "page_of_table rows = \<lparr>tp_table = Some rows, tp_content_fees = Inr ([], []), tp_tables = [rows]\<rparr>"

definition page_without_class :: tuition_page where
  "page_without_class =
     \<lparr>tp_table = None, tp_content_fees = Inr ([], []), tp_tables = [example_rows]\<rparr>"

definition example_programs :: tuition_data where
  "example_programs =
     \<lparr>regular_program = [(''Grade 1'', fee_of ''100'' ''50'' ''50'')],
      specialized_program = [(''Support A'', fee_of ''80'' ''40'' ''40'')],
      additional_fees = [], other_fees = []\<rparr>"

definition mixed_programs :: tuition_data where
  "mixed_programs =
     \<lparr>regular_program = [(''Grade 1'', fee_of ''100'' ''50'' ''50''),
                         (''Support A'', fee_of ''80'' ''40'' ''40'')],
      specialized_program = [], additional_fees = [], other_fees = []\<rparr>"

text \<open>
  A data row of the loop over \<open>table.table\<close>: at least four cells, a first cell that is
  not empty and holds no header keyword, and an annual fee. A data row of the alternative
  parsing: at least two cells, a first cell that is not blank and does not hold the word
  \<open>PROGRAM\<close>, and an annual fee.
\<close>

definition data_row :: "row \<Rightarrow> bool" where
  "data_row cells =
     (length cells \<ge> 4 \<and> cells ! 0 \<noteq> [] \<and> header_of cells = None \<and> cells ! 1 \<noteq> [])"

definition alt_data_row :: "row \<Rightarrow> bool" where
  "alt_data_row cells =
     (length cells \<ge> 2 \<and> alt_header_of cells = None \<and> strip (cells ! 0) \<noteq> []
      \<and> \<not> contains (upper (strip (cells ! 0))) ''PROGRAM'' \<and> cells ! 1 \<noteq> [])"

definition sections :: "string option set" where
  "sections = {None, Some ''regular_program'', Some ''specialized_program''}"


text \<open>The five category results of each extractor, in the order of the output record.\<close>

definition ism_category_results :: "ism_site \<Rightarrow> json list" where
  "ism_category_results site =
     [fst (scrape_tuition_fees (ism_tuition site)), scrape_curriculum (ism_curriculum site),
      scrape_enrollment_process (ism_enrollment site), scrape_scholarships (ism_scholarships site),
      scrape_contact_info (ism_contact site)]"

definition bsm_category_results :: "(string \<Rightarrow> string list) \<Rightarrow> bsm_site \<Rightarrow> json list" where
  "bsm_category_results findall_email site =
     [bsm_scrape_tuition_fees, bsm_scrape_curriculum (bsm_curriculum site),
      bsm_scrape_enrollment_process findall_email (bsm_enrollment site), bsm_scrape_scholarships,
      bsm_scrape_contact_info (bsm_contact site)]"

definition faith_category_results :: "faith_site \<Rightarrow> json list" where
  "faith_category_results site =
     [faith_scrape_tuition_fees (faith_tuition site), faith_scrape_curriculum (faith_curriculum site),
      faith_scrape_enrollment_process (faith_enrollment site), faith_scrape_scholarships,
      faith_scrape_contact_info (faith_contact site)]"

definition ris_category_results :: "ris_site \<Rightarrow> json list" where
  "ris_category_results site =
     [ris_scrape_tuition_fees, ris_scrape_curriculum (ris_curriculum site),
      ris_scrape_enrollment_process (ris_enrollment site), ris_scrape_scholarships,
      ris_scrape_contact_info (ris_contact site)]"

definition ssm_category_results :: "ssm_site \<Rightarrow> json list" where
  "ssm_category_results site =
     [ssm_scrape_tuition_fees (ssm_tuition site), ssm_scrape_curriculum (ssm_curriculum site),
      ssm_scrape_enrollment_process (ssm_enrollment site), ssm_scrape_scholarships,
      ssm_scrape_contact_info (ssm_contact site)]"

definition vcis_category_results :: "vcis_site \<Rightarrow> json list" where
  "vcis_category_results site =
     [vcis_scrape_tuition_fees, vcis_scrape_curriculum (vcis_curriculum site),
      vcis_scrape_enrollment_process, vcis_scrape_scholarships,
      vcis_scrape_contact_info (vcis_contact site)]"

definition cism_category_results :: "cism_site \<Rightarrow> json list" where
  "cism_category_results site =
     [fst (cism_scrape_tuition_fees (cism_tuition site)),
      cism_scrape_curriculum (cism_curriculum site),
      cism_scrape_enrollment_process (cism_enrollment site),
      cism_scrape_scholarships (cism_scholarships site),
      cism_scrape_contact_info (cism_contact site)]"

text \<open>The output record whose five fields are the elements of a list.\<close>

definition record_of :: "string \<Rightarrow> json list \<Rightarrow> json" where
  "record_of name vs = output_record name (vs ! 0) (vs ! 1) (vs ! 2) (vs ! 3) (vs ! 4)"


text \<open>
  The value of a field of the universal scraper: \<open>_scrape_field\<close> returns a \<open>str\<close>, which
  \<open>SchoolInfo.to_dict\<close> puts into the dictionary of the school as it is.
\<close>

definition scrape_field_value :: "(string \<Rightarrow> exn + soup) \<Rightarrow> school \<Rightarrow> string \<Rightarrow> json" where
  "scrape_field_value fetch sch field_name = JStr (scrape_field fetch sch field_name)"

text \<open>A catalog record with one fee URL, and a fetch that always times out.\<close>

definition fee_school :: school where
  "fee_school = [''school_fee'' \<mapsto> Url ''http://x'']"

definition failing_fetch :: "string \<Rightarrow> exn + soup" where
  "failing_fetch url = Inl (Exn ''timeout'' None)"

text \<open>
  What leaves \<open>scrape\<close> when the first call of \<open>close_playwright\<close> raises \<open>e1\<close> at the end
  of the \<open>try\<close> block: \<open>e1\<close> itself when the second call, in the \<open>except\<close> clause, returns,
  and the exception of the second call, with \<open>e1\<close> as its context, when that raises too.
\<close>

definition teardown_error :: "teardown \<Rightarrow> exn \<Rightarrow> exn" where
  "teardown_error close e1 = (case close 1 of None \<Rightarrow> e1 | Some e2 \<Rightarrow> raised_while_handling e2 e1)"


section \<open>Verified properties\<close>

subsection \<open>The universal scraper\<close>

lemma extract_content_nonempty: "extract_content sp field_name \<noteq> []"
  by (simp add: extract_content_def Let_def)

text \<open>
  Claim C9. For every parsed page and every field name, \<open>_extract_content\<close> returns a
  string of at most 5000 characters: the whitespace-collapsed text cut at 5000, or the
  fixed placeholder when nothing is found.
\<close>

theorem extract_content_bounded: "length (extract_content sp field_name) \<le> 5000"
  by (simp add: extract_content_def Let_def)

lemma scrape_urls_heads:
  "r \<in> set (scrape_urls fetch f urls) \<Longrightarrow> r \<noteq> [] \<and> (hd r = CHR ''F'' \<or> hd r = CHR ''E'')"
  by (induction urls) (auto simp: Let_def split: if_splits sum.splits)

lemma scrape_urls_empty:
  "scrape_urls fetch f urls = [] \<longleftrightarrow> filter (\<lambda>u. u \<noteq> []) urls = []"
  by (induction urls) (auto simp: Let_def extract_content_nonempty split: sum.splits)

lemma join_hd:
  "xs \<noteq> [] \<Longrightarrow> hd xs \<noteq> [] \<Longrightarrow> join sep xs \<noteq> [] \<and> hd (join sep xs) = hd (hd xs)"
  by (induction sep xs rule: join.induct) auto

text \<open>
  Claim C10, as stated, fails: a URL that is fetched and yields no extractable content
  does not give the sentinel \<open>No data available\<close>, because \<open>_extract_content\<close> never
  returns the empty string. On a page where nothing is found the field reads
  \<open>From http://x:\<close>, a newline, \<open>No structured data found\<close>.
\<close>

theorem scrape_field_empty_page_counterexample:
  "extract_content empty_soup ''school_fee'' = ''No structured data found'' \<and>
   scrape_field (\<lambda>url. Inr empty_soup) [''school_fee'' \<mapsto> Url ''http://x''] ''school_fee''
     = ''From http://x:'' @ [nl] @ ''No structured data found'' \<and>
   scrape_field (\<lambda>url. Inr empty_soup) [''school_fee'' \<mapsto> Url ''http://x''] ''school_fee''
     \<noteq> ''No data available''"
  by (simp add: scrape_field_def school_get_def as_url_list_def extract_content_def
        empty_soup_def find_main_content_def selectors_def extract_fees_def find_all_names_def
        related_text_def find_all_keywords_def strip_def)

text \<open>
  Claim C10, amended. \<open>_scrape_field\<close> returns a non-empty string, and it returns the
  sentinel \<open>No data available\<close> exactly when the catalog field holds no non-empty URL
  (the field is absent, the empty string, the empty list, or a list of empty strings).
  Every non-empty URL contributes a chunk that starts with \<open>From\<close> or \<open>Error scraping\<close>,
  so a page that was fetched and found empty is told apart from a missing source.
\<close>

theorem scrape_field_sentinel:
  "scrape_field fetch sch f \<noteq> [] \<and>
   (scrape_field fetch sch f = ''No data available''
      \<longleftrightarrow> filter (\<lambda>u. u \<noteq> []) (as_url_list (school_get sch f)) = [])"
proof -
  let ?urls = "as_url_list (school_get sch f)"
  let ?rs = "scrape_urls fetch f ?urls"
  let ?sep = "[nl, nl] @ ''---'' @ [nl, nl]"
  show ?thesis
  proof (cases "?rs = []")
    case True
    then show ?thesis
      using scrape_urls_empty [of fetch f ?urls]
      by (auto simp: scrape_field_def as_url_list_def Let_def split: field_value.splits)
  next
    case False
    then have "hd ?rs \<in> set ?rs" by simp
    then have "hd ?rs \<noteq> [] \<and> (hd (hd ?rs) = CHR ''F'' \<or> hd (hd ?rs) = CHR ''E'')"
      by (rule scrape_urls_heads)
    with False have j: "join ?sep ?rs \<noteq> [] \<and>
        (hd (join ?sep ?rs) = CHR ''F'' \<or> hd (join ?sep ?rs) = CHR ''E'')"
      using join_hd [of ?rs ?sep] by auto
    then have ne: "join ?sep ?rs \<noteq> ''No data available''" by auto
    have some_url: "filter (\<lambda>u. u \<noteq> []) ?urls \<noteq> []"
      using False scrape_urls_empty [of fetch f ?urls] by simp
    have "scrape_field fetch sch f = join ?sep ?rs"
      using False some_url
      by (auto simp: scrape_field_def as_url_list_def Let_def split: field_value.splits)
    with j ne some_url show ?thesis by simp
  qed
qed

theorem scrape_field_sentinel_witness:
  "scrape_field (\<lambda>url. Inr empty_soup) [''school_fee'' \<mapsto> Urls ['''', '''']] ''school_fee''
     = ''No data available''"
  using scrape_field_sentinel [of "\<lambda>url. Inr empty_soup"
          "[''school_fee'' \<mapsto> Urls ['''', '''']]" "''school_fee''"]
  by (simp add: school_get_def as_url_list_def)

subsection \<open>Category results and the aggregate scrape\<close>

lemmas wrapper_defs = success_result_def error_result_def warning_result_def partial_result_def
  skipped_result_def not_implemented_result_def

lemma has_status_wrappers [simp]:
  "has_status (success_result d)" "has_status (error_result m)" "has_status (warning_result m d)"
  "has_status (partial_result m d)" "has_status (skipped_result m)"
  "has_status (not_implemented_result m)"
  by (simp_all add: has_status_def status_of_def statuses_def wrapper_defs)

lemma status_of_wrappers [simp]:
  "status_of (success_result d) = Some ''success''" "status_of (error_result m) = Some ''error''"
  "status_of (warning_result m d) = Some ''warning''"
  "status_of (partial_result m d) = Some ''partial''"
  "status_of (skipped_result m) = Some ''skipped''"
  "status_of (not_implemented_result m) = Some ''not_implemented''"
  by (simp_all add: status_of_def wrapper_defs)

lemma data_if_success_success [simp]: "data_if_success (success_result d) = Inr d"
  by (simp add: data_if_success_def try_bind_def success_result_def)

lemma data_if_success_error [simp]: "data_if_success (error_result m) = Inr (error_result m)"
  by (simp add: data_if_success_def try_bind_def error_result_def)

lemma data_if_success_other:
  "has_status r \<Longrightarrow> status_of r \<noteq> Some ''success'' \<Longrightarrow> data_if_success r = Inr r"
  by (auto simp: has_status_def status_of_def data_if_success_def try_bind_def
           split: sum.splits json.splits option.splits)

text \<open>A result that the unwrapping of ISM, RIS and SSM handles without an exception.\<close>

lemma unwrap_ok:
  assumes "(\<exists>d. r = success_result d) \<or> has_status r \<and> status_of r \<noteq> Some ''success''"
  shows "\<exists>v. data_if_success r = Inr v \<and> payload_or_wrapper r v"
  using assms by (auto simp: payload_or_wrapper_def data_if_success_other)

lemma unwrapped_results_total:
  assumes "\<exists>v. data_if_success t = Inr v \<and> payload_or_wrapper t v"
      and "\<exists>v. data_if_success c = Inr v \<and> payload_or_wrapper c v"
      and "\<exists>v. data_if_success en = Inr v \<and> payload_or_wrapper en v"
      and "\<exists>v. data_if_success s = Inr v \<and> payload_or_wrapper s v"
      and "\<exists>v. data_if_success ct = Inr v \<and> payload_or_wrapper ct v"
  shows "\<exists>vs. unwrapped_results name t c en s ct = Inr (record_of name vs)
           \<and> list_all2 payload_or_wrapper [t, c, en, s, ct] vs"
proof -
  from assms obtain tv cv env sv ctv where
    "data_if_success t = Inr tv" "payload_or_wrapper t tv"
    "data_if_success c = Inr cv" "payload_or_wrapper c cv"
    "data_if_success en = Inr env" "payload_or_wrapper en env"
    "data_if_success s = Inr sv" "payload_or_wrapper s sv"
    "data_if_success ct = Inr ctv" "payload_or_wrapper ct ctv"
    by blast
  then have "unwrapped_results name t c en s ct = Inr (record_of name [tv, cv, env, sv, ctv])
             \<and> list_all2 payload_or_wrapper [t, c, en, s, ct] [tv, cv, env, sv, ctv]"
    by (simp add: unwrapped_results_def try_bind_def record_of_def)
  then show ?thesis by blast
qed

lemma guarded_error [simp]: "guarded (Inl e) = error_result (msg e)"
  by (simp add: guarded_def)

lemma guarded_result [simp]: "guarded (Inr r) = r"
  by (simp add: guarded_def)

lemma tuition_shape:
  "(\<exists>d. fst (scrape_tuition_fees tf) = success_result d)
   \<or> (\<exists>m. fst (scrape_tuition_fees tf) = error_result m)"
  by (auto simp: scrape_tuition_fees_def tuition_body_def Let_def
           split: sum.splits option.splits prod.splits)

lemma returns_success_shape:
  "(\<exists>d. returns_success b = success_result d) \<or> (\<exists>m. returns_success b = error_result m)"
  by (cases b) (auto simp: returns_success_def)

lemma curriculum_shape:
  "(\<exists>d. scrape_curriculum b = success_result d) \<or> (\<exists>m. scrape_curriculum b = error_result m)"
  by (cases b) (auto simp: scrape_curriculum_def)

lemma scholarships_shape:
  "(\<exists>d. scrape_scholarships b = success_result d) \<or> (\<exists>m. scrape_scholarships b = error_result m)"
  by (cases b) (auto simp: scrape_scholarships_def)

lemma contact_shape:
  "(\<exists>d. scrape_contact_info b = success_result d) \<or> (\<exists>m. scrape_contact_info b = error_result m)"
  by (cases b) (auto simp: scrape_contact_info_def)

lemma enrollment_shape:
  "(\<exists>d. scrape_enrollment_process ef = success_result d)
   \<or> (\<exists>m. scrape_enrollment_process ef = error_result m)"
  by (cases ef) (auto simp: scrape_enrollment_process_def)

lemma shape_ok:
  "(\<exists>d. r = success_result d) \<or> (\<exists>m. r = error_result m) \<Longrightarrow>
   (\<exists>d. r = success_result d) \<or> has_status r \<and> status_of r \<noteq> Some ''success''"
  by auto

lemma shape_status:
  "(\<exists>d. r = success_result d) \<or> (\<exists>m. r = error_result m) \<Longrightarrow> has_status r"
  by auto

lemma ism_statuses: "list_all has_status (ism_category_results site)"
  by (simp add: ism_category_results_def shape_status [OF tuition_shape]
        shape_status [OF curriculum_shape] shape_status [OF scholarships_shape]
        shape_status [OF contact_shape] shape_status [OF enrollment_shape])

lemma bsm_statuses: "list_all has_status (bsm_category_results fe site)"
proof -
  have "has_status bsm_scrape_tuition_fees" "has_status bsm_scrape_scholarships"
    by (simp_all add: has_status_def status_of_def statuses_def bsm_scrape_tuition_fees_def
          bsm_scrape_scholarships_def)
  moreover have "has_status (bsm_scrape_curriculum (bsm_curriculum site))"
    by (cases "bsm_curriculum site") (auto simp: bsm_scrape_curriculum_def split: option.splits)
  moreover have "has_status (bsm_scrape_enrollment_process fe (bsm_enrollment site))"
    by (cases "bsm_enrollment site")
       (auto simp: bsm_scrape_enrollment_process_def bsm_enrollment_body_def Let_def)
  moreover have "has_status (bsm_scrape_contact_info (bsm_contact site))"
    by (cases "bsm_contact site") (auto simp: bsm_scrape_contact_info_def)
  ultimately show ?thesis by (simp add: bsm_category_results_def)
qed

lemma faith_statuses: "list_all has_status (faith_category_results site)"
proof -
  have "has_status faith_scrape_scholarships"
    by (simp add: has_status_def status_of_def statuses_def faith_scrape_scholarships_def)
  then show ?thesis
    by (simp add: faith_category_results_def faith_scrape_tuition_fees_def
          faith_scrape_curriculum_def faith_scrape_enrollment_process_def
          faith_scrape_contact_info_def shape_status [OF returns_success_shape])
qed

lemma ris_statuses: "list_all has_status (ris_category_results site)"
  by (simp add: ris_category_results_def ris_scrape_tuition_fees_def ris_scrape_curriculum_def
        ris_scrape_enrollment_process_def ris_scrape_scholarships_def ris_scrape_contact_info_def
        shape_status [OF returns_success_shape])

lemma ssm_tuition_ok:
  "(\<exists>d. ssm_scrape_tuition_fees b = success_result d)
   \<or> has_status (ssm_scrape_tuition_fees b) \<and> status_of (ssm_scrape_tuition_fees b) \<noteq> Some ''success''"
  by (cases b) (auto simp: ssm_scrape_tuition_fees_def split: prod.splits)

lemma ssm_curriculum_ok:
  "(\<exists>d. ssm_scrape_curriculum b = success_result d)
   \<or> has_status (ssm_scrape_curriculum b) \<and> status_of (ssm_scrape_curriculum b) \<noteq> Some ''success''"
  by (cases b) (auto simp: ssm_scrape_curriculum_def split: prod.splits)

lemma ssm_enrollment_ok:
  "(\<exists>d. ssm_scrape_enrollment_process b = success_result d)
   \<or> has_status (ssm_scrape_enrollment_process b)
      \<and> status_of (ssm_scrape_enrollment_process b) \<noteq> Some ''success''"
  by (cases b) (auto simp: ssm_scrape_enrollment_process_def split: prod.splits)

lemma ok_status:
  "(\<exists>d. r = success_result d) \<or> has_status r \<and> status_of r \<noteq> Some ''success'' \<Longrightarrow> has_status r"
  by auto

lemma ssm_statuses: "list_all has_status (ssm_category_results site)"
  by (simp add: ssm_category_results_def ssm_scrape_scholarships_def ssm_scrape_contact_info_def
        ok_status [OF ssm_tuition_ok] ok_status [OF ssm_curriculum_ok]
        ok_status [OF ssm_enrollment_ok] shape_status [OF returns_success_shape])

lemma vcis_statuses: "list_all has_status (vcis_category_results site)"
proof -
  have "has_status (vcis_scrape_curriculum (vcis_curriculum site))"
    by (cases "vcis_curriculum site") (auto simp: vcis_scrape_curriculum_def)
  moreover have "has_status (vcis_scrape_contact_info (vcis_contact site))"
    by (cases "vcis_contact site") (auto simp: vcis_scrape_contact_info_def split: prod.splits)
  ultimately show ?thesis
    by (simp add: vcis_category_results_def vcis_scrape_tuition_fees_def
          vcis_scrape_enrollment_process_def vcis_scrape_scholarships_def)
qed

lemma has_status_success_dict: "has_status (JDict ((''status'', JStr ''success'') # rest))"
  by (simp add: has_status_def status_of_def statuses_def)

lemma found_or_error_status: "has_status (found_or_error m b)"
  by (cases b) (auto simp: found_or_error_def split: option.splits)

lemma cism_statuses: "list_all has_status (cism_category_results site)"
proof -
  have "has_status (fst (cism_scrape_tuition_fees (cism_tuition site)))"
    by (cases "cism_tuition site")
       (auto simp: cism_scrape_tuition_fees_def cism_tuition_body_def cism_table_def
             split: option.splits)
  moreover have "has_status (cism_scrape_scholarships (cism_scholarships site))"
    by (cases "cism_scholarships site")
       (auto simp: cism_scrape_scholarships_def has_status_success_dict
             split: option.splits prod.splits)
  ultimately show ?thesis
    by (simp add: cism_category_results_def cism_scrape_curriculum_def
          cism_scrape_enrollment_process_def cism_scrape_contact_info_def found_or_error_status
          shape_status [OF returns_success_shape])
qed

lemma ism_try_block:
  "\<exists>vs. unwrapped_results ''International School Manila''
               (fst (scrape_tuition_fees (ism_tuition site)))
               (scrape_curriculum (ism_curriculum site))
               (scrape_enrollment_process (ism_enrollment site))
               (scrape_scholarships (ism_scholarships site))
               (scrape_contact_info (ism_contact site)) = Inr (record_of ''International School Manila'' vs)
           \<and> list_all2 payload_or_wrapper (ism_category_results site) vs"
  unfolding ism_category_results_def
  by (intro unwrapped_results_total unwrap_ok shape_ok tuition_shape curriculum_shape
        enrollment_shape scholarships_shape contact_shape)

lemma skipped_ok:
  "(\<exists>d. skipped_result m = success_result d)
   \<or> has_status (skipped_result m) \<and> status_of (skipped_result m) \<noteq> Some ''success''"
  by simp

lemma ris_try_block:
  "\<exists>vs. unwrapped_results ''Reedley International School''
               ris_scrape_tuition_fees (ris_scrape_curriculum (ris_curriculum site))
               (ris_scrape_enrollment_process (ris_enrollment site)) ris_scrape_scholarships
               (ris_scrape_contact_info (ris_contact site))
             = Inr (record_of ''Reedley International School'' vs)
           \<and> list_all2 payload_or_wrapper (ris_category_results site) vs"
  unfolding ris_category_results_def ris_scrape_tuition_fees_def ris_scrape_scholarships_def
    ris_scrape_curriculum_def ris_scrape_enrollment_process_def ris_scrape_contact_info_def
  by (intro unwrapped_results_total unwrap_ok skipped_ok shape_ok returns_success_shape)

lemma ssm_try_block:
  "\<exists>vs. unwrapped_results ''Singapore School Manila''
               (ssm_scrape_tuition_fees (ssm_tuition site))
               (ssm_scrape_curriculum (ssm_curriculum site))
               (ssm_scrape_enrollment_process (ssm_enrollment site)) ssm_scrape_scholarships
               (ssm_scrape_contact_info (ssm_contact site))
             = Inr (record_of ''Singapore School Manila'' vs)
           \<and> list_all2 payload_or_wrapper (ssm_category_results site) vs"
  unfolding ssm_category_results_def ssm_scrape_scholarships_def ssm_scrape_contact_info_def
  by (intro unwrapped_results_total unwrap_ok skipped_ok ssm_tuition_ok ssm_curriculum_ok
        ssm_enrollment_ok shape_ok returns_success_shape)


lemma record_of_list:
  "record_of name [t, c, en, s, ct] = output_record name t c en s ct"
  by (simp add: record_of_def)

lemma scrape_field_raised:
  "scrape_field (\<lambda>url. Inl e) [f \<mapsto> Url (c # cs)] f
     = ''Error scraping '' @ (c # cs) @ '': '' @ msg e"
  by (simp add: scrape_field_def school_get_def as_url_list_def)

lemma status_of_text: "status_of (scrape_field_value fetch sch fld) = None"
  by (simp add: status_of_def scrape_field_value_def)

text \<open>
  Claim C1, as stated, fails for the universal scraper, whose field method the claim
  covers too: \<open>_scrape_field\<close> returns text, not a dictionary with a status. When the
  fetch of the fee URL times out, the field is the string \<open>Error scraping http://x: timeout\<close>:
  it carries none of the six statuses and is not an error result.
\<close>

theorem universal_field_counterexample:
  "scrape_field failing_fetch fee_school ''school_fee'' = ''Error scraping http://x: timeout''
   \<and> scrape_field_value failing_fetch fee_school ''school_fee''
       = JStr ''Error scraping http://x: timeout''
   \<and> status_of (scrape_field_value failing_fetch fee_school ''school_fee'') = None
   \<and> \<not> has_status (scrape_field_value failing_fetch fee_school ''school_fee'')
   \<and> scrape_field_value failing_fetch fee_school ''school_fee'' \<noteq> error_result ''timeout''"
  by (simp add: scrape_field_value_def scrape_field_def school_get_def as_url_list_def
        fee_school_def failing_fetch_def has_status_def status_of_def error_result_def)

text \<open>
  Claim C1, amended. Each of the five category methods of each of the seven site
  extractors returns a dictionary whose status is one of the six variants, whatever the
  pages hold and whether or not a fetch raises. An exception (an instance of
  \<open>Exception\<close>) raised inside a category method, by the fetch or by the extraction, is
  turned into the error result that carries \<open>str(e)\<close>. In the three extractors that
  unwrap successful results, the \<open>try\<close> block of the aggregate \<open>scrape\<close> reaches
  \<open>close_playwright\<close> without an exception; in the other four it builds the record from
  the five results as they are. The field method of the universal scraper returns text
  and never a status: it catches the exception of a URL as well and writes the note
  \<open>Error scraping\<close>, the URL and \<open>str(e)\<close> into the text of the field.
\<close>

theorem category_methods_return_status:
  "list_all has_status (ism_category_results site)
   \<and> list_all has_status (bsm_category_results fe bsite)
   \<and> list_all has_status (faith_category_results fsite)
   \<and> list_all has_status (ris_category_results rsite)
   \<and> list_all has_status (ssm_category_results ssite)
   \<and> list_all has_status (vcis_category_results vsite)
   \<and> list_all has_status (cism_category_results csite)
   \<and> fst (scrape_tuition_fees (Inl e)) = error_result (msg e)
   \<and> fst (scrape_tuition_fees
             (Inr \<lparr>tp_table = Some rows, tp_content_fees = Inl e, tp_tables = tables\<rparr>))
       = error_result (msg e)
   \<and> scrape_curriculum (Inl e) = error_result (msg e)
   \<and> scrape_enrollment_process (Inl e) = error_result (msg e)
   \<and> scrape_scholarships (Inl e) = error_result (msg e)
   \<and> scrape_contact_info (Inl e) = error_result (msg e)
   \<and> bsm_scrape_curriculum (Inl e) = error_result (msg e)
   \<and> bsm_scrape_enrollment_process fe (Inl e) = error_result (msg e)
   \<and> bsm_scrape_contact_info (Inl e) = error_result (msg e)
   \<and> faith_scrape_tuition_fees (Inl e) = error_result (msg e)
   \<and> faith_scrape_curriculum (Inl e) = error_result (msg e)
   \<and> faith_scrape_enrollment_process (Inl e) = error_result (msg e)
   \<and> faith_scrape_contact_info (Inl e) = error_result (msg e)
   \<and> ris_scrape_curriculum (Inl e) = error_result (msg e)
   \<and> ris_scrape_enrollment_process (Inl e) = error_result (msg e)
   \<and> ris_scrape_contact_info (Inl e) = error_result (msg e)
   \<and> ssm_scrape_tuition_fees (Inl e) = error_result (msg e)
   \<and> ssm_scrape_curriculum (Inl e) = error_result (msg e)
   \<and> ssm_scrape_enrollment_process (Inl e) = error_result (msg e)
   \<and> ssm_scrape_contact_info (Inl e) = error_result (msg e)
   \<and> vcis_scrape_curriculum (Inl e) = error_result (msg e)
   \<and> vcis_scrape_contact_info (Inl e) = error_result (msg e)
   \<and> fst (cism_scrape_tuition_fees (Inl e)) = error_result (msg e)
   \<and> cism_scrape_curriculum (Inl e) = error_result (msg e)
   \<and> cism_scrape_enrollment_process (Inl e) = error_result (msg e)
   \<and> cism_scrape_scholarships (Inl e) = error_result (msg e)
   \<and> cism_scrape_contact_info (Inl e) = error_result (msg e)
   \<and> (\<exists>results. unwrapped_results ''International School Manila''
                     (fst (scrape_tuition_fees (ism_tuition site)))
                     (scrape_curriculum (ism_curriculum site))
                     (scrape_enrollment_process (ism_enrollment site))
                     (scrape_scholarships (ism_scholarships site))
                     (scrape_contact_info (ism_contact site)) = Inr results)
   \<and> (\<exists>results. unwrapped_results ''Reedley International School''
                     ris_scrape_tuition_fees (ris_scrape_curriculum (ris_curriculum rsite))
                     (ris_scrape_enrollment_process (ris_enrollment rsite))
                     ris_scrape_scholarships
                     (ris_scrape_contact_info (ris_contact rsite)) = Inr results)
   \<and> (\<exists>results. unwrapped_results ''Singapore School Manila''
                     (ssm_scrape_tuition_fees (ssm_tuition ssite))
                     (ssm_scrape_curriculum (ssm_curriculum ssite))
                     (ssm_scrape_enrollment_process (ssm_enrollment ssite))
                     ssm_scrape_scholarships
                     (ssm_scrape_contact_info (ssm_contact ssite)) = Inr results)
   \<and> scrape_field (\<lambda>url. Inl e) [f \<mapsto> Url (c # cs)] f
       = ''Error scraping '' @ (c # cs) @ '': '' @ msg e
   \<and> status_of (scrape_field_value fetch sch fld) = None"
proof -
  have raised:
    "fst (scrape_tuition_fees (Inl e)) = error_result (msg e)
     \<and> fst (scrape_tuition_fees
             (Inr \<lparr>tp_table = Some rows, tp_content_fees = Inl e, tp_tables = tables\<rparr>))
       = error_result (msg e)
     \<and> scrape_curriculum (Inl e) = error_result (msg e)
     \<and> scrape_enrollment_process (Inl e) = error_result (msg e)
     \<and> scrape_scholarships (Inl e) = error_result (msg e)
     \<and> scrape_contact_info (Inl e) = error_result (msg e)
     \<and> bsm_scrape_curriculum (Inl e) = error_result (msg e)
     \<and> bsm_scrape_enrollment_process fe (Inl e) = error_result (msg e)
     \<and> bsm_scrape_contact_info (Inl e) = error_result (msg e)
     \<and> returns_success (Inl e) = error_result (msg e)
     \<and> ssm_scrape_tuition_fees (Inl e) = error_result (msg e)
     \<and> ssm_scrape_curriculum (Inl e) = error_result (msg e)
     \<and> ssm_scrape_enrollment_process (Inl e) = error_result (msg e)
     \<and> vcis_scrape_curriculum (Inl e) = error_result (msg e)
     \<and> vcis_scrape_contact_info (Inl e) = error_result (msg e)
     \<and> fst (cism_scrape_tuition_fees (Inl e)) = error_result (msg e)
     \<and> found_or_error m (Inl e) = error_result (msg e)
     \<and> cism_scrape_scholarships (Inl e) = error_result (msg e)" for m
    by (simp add: scrape_tuition_fees_def tuition_body_def Let_def scrape_curriculum_def
          scrape_enrollment_process_def scrape_scholarships_def scrape_contact_info_def
          bsm_scrape_curriculum_def bsm_scrape_enrollment_process_def bsm_scrape_contact_info_def
          returns_success_def ssm_scrape_tuition_fees_def ssm_scrape_curriculum_def
          ssm_scrape_enrollment_process_def vcis_scrape_curriculum_def
          vcis_scrape_contact_info_def cism_scrape_tuition_fees_def found_or_error_def
          cism_scrape_scholarships_def)
  have named:
    "faith_scrape_tuition_fees = returns_success" "faith_scrape_curriculum = returns_success"
    "faith_scrape_enrollment_process = returns_success"
    "faith_scrape_contact_info = returns_success"
    "ris_scrape_curriculum = returns_success" "ris_scrape_enrollment_process = returns_success"
    "ris_scrape_contact_info = returns_success" "ssm_scrape_contact_info = returns_success"
    "cism_scrape_contact_info = returns_success"
    "cism_scrape_curriculum = found_or_error ''Curriculum information not found''"
    "cism_scrape_enrollment_process = found_or_error ''Enrollment process information not found''"
    by (auto simp: fun_eq_iff faith_scrape_tuition_fees_def faith_scrape_curriculum_def
          faith_scrape_enrollment_process_def faith_scrape_contact_info_def
          ris_scrape_curriculum_def ris_scrape_enrollment_process_def ris_scrape_contact_info_def
          ssm_scrape_contact_info_def cism_scrape_contact_info_def cism_scrape_curriculum_def
          cism_scrape_enrollment_process_def)
  have blocks:
    "\<exists>results. unwrapped_results ''International School Manila''
                     (fst (scrape_tuition_fees (ism_tuition site)))
                     (scrape_curriculum (ism_curriculum site))
                     (scrape_enrollment_process (ism_enrollment site))
                     (scrape_scholarships (ism_scholarships site))
                     (scrape_contact_info (ism_contact site)) = Inr results"
    "\<exists>results. unwrapped_results ''Reedley International School''
                     ris_scrape_tuition_fees (ris_scrape_curriculum (ris_curriculum rsite))
                     (ris_scrape_enrollment_process (ris_enrollment rsite))
                     ris_scrape_scholarships
                     (ris_scrape_contact_info (ris_contact rsite)) = Inr results"
    "\<exists>results. unwrapped_results ''Singapore School Manila''
                     (ssm_scrape_tuition_fees (ssm_tuition ssite))
                     (ssm_scrape_curriculum (ssm_curriculum ssite))
                     (ssm_scrape_enrollment_process (ssm_enrollment ssite))
                     ssm_scrape_scholarships
                     (ssm_scrape_contact_info (ssm_contact ssite)) = Inr results"
    using ism_try_block [of site] ris_try_block [of rsite] ssm_try_block [of ssite] by blast+
  show ?thesis
    unfolding named
    using raised blocks [unfolded named] ism_statuses [of site] bsm_statuses [of fe bsite]
      faith_statuses [of fsite] ris_statuses [of rsite] ssm_statuses [of ssite]
      vcis_statuses [of vsite] cism_statuses [of csite] scrape_field_raised [of e f c cs]
      status_of_text [of fetch sch fld]
    by simp
qed

lemma scrape_defs:
  "ism_scrape close site
     = close_after close (unwrapped_results ''International School Manila''
         (fst (scrape_tuition_fees (ism_tuition site))) (scrape_curriculum (ism_curriculum site))
         (scrape_enrollment_process (ism_enrollment site))
         (scrape_scholarships (ism_scholarships site)) (scrape_contact_info (ism_contact site)))"
  "bsm_scrape close fe bsite
     = close_after close (Inr (record_of ''British School Manila'' (bsm_category_results fe bsite)))"
  "faith_scrape close fsite
     = close_after close (Inr (record_of ''Faith Academy'' (faith_category_results fsite)))"
  "vcis_scrape close vsite
     = close_after close (Inr (record_of ''Victory Christian International School''
                                 (vcis_category_results vsite)))"
  "cism_scrape close csite
     = close_after close (Inr (record_of ''Chinese International School Manila''
                                 (cism_category_results csite)))"
  by (simp_all add: ism_scrape_def bsm_scrape_def faith_scrape_def vcis_scrape_def cism_scrape_def
        bsm_category_results_def faith_category_results_def vcis_category_results_def
        cism_category_results_def record_of_def Let_def)

text \<open>
  Claim C6, as stated, fails: when the first call of \<open>close_playwright\<close> raises inside the
  \<open>try\<close> block, the \<open>except\<close> clause calls it again, so it is invoked twice, not once.
\<close>

theorem teardown_twice_counterexample:
  "snd (ism_scrape failing_close unreachable_site) = 2 \<and>
   snd (ism_scrape failing_close unreachable_site) \<noteq> 1"
  by (simp add: ism_scrape_def close_after_def failing_close_def unreachable_site_def
        scrape_tuition_fees_def scrape_curriculum_def scrape_enrollment_process_def
        scrape_scholarships_def scrape_contact_info_def guarded_def unwrapped_results_def
        try_bind_def)

lemma close_after_returned:
  "close_after close (Inr r) =
     (case close 0 of None \<Rightarrow> (Inr r, 1) | Some e1 \<Rightarrow> (Inl (teardown_error close e1), 2))"
  by (simp add: close_after_def teardown_error_def split: option.splits)

lemma ism_body_returns:
  "\<exists>vs. ism_scrape close site
          = close_after close (Inr (record_of ''International School Manila'' vs))
      \<and> list_all2 payload_or_wrapper (ism_category_results site) vs"
  using ism_try_block [of site] by (auto simp: scrape_defs)

lemma ris_body_returns:
  "\<exists>vs. ris_scrape close site
          = close_after close (Inr (record_of ''Reedley International School'' vs))
      \<and> list_all2 payload_or_wrapper (ris_category_results site) vs"
  using ris_try_block [of site] by (auto simp: ris_scrape_def)

lemma ssm_body_returns:
  "\<exists>vs. ssm_scrape close site
          = close_after close (Inr (record_of ''Singapore School Manila'' vs))
      \<and> list_all2 payload_or_wrapper (ssm_category_results site) vs"
  using ssm_try_block [of site] by (auto simp: ssm_scrape_def)

lemma returned_outcome:
  assumes "s = close_after close (Inr r)"
  shows "snd s = (if close 0 = None then 1 else 2)
         \<and> (close 0 = None \<longrightarrow> fst s = Inr r)
         \<and> (\<forall>e1. close 0 = Some e1 \<longrightarrow> fst s = Inl (teardown_error close e1))"
  using assms by (auto simp: close_after_returned split: option.splits)

text \<open>
  Claim C6, amended. In each of the seven extractors every category method catches its
  own exceptions, so the \<open>try\<close> block of \<open>scrape\<close> always reaches its call of
  \<open>close_playwright\<close>. When that call returns, it is the only one, and \<open>scrape\<close> returns
  the record, in which a category that failed is present as its error result. When that
  call raises \<open>e1\<close>, the \<open>except\<close> clause calls \<open>close_playwright\<close> a second time:
  there are two invocations, and \<open>scrape\<close> raises \<open>e1\<close>, or, when the second call
  raises as well, the exception of the second call with \<open>e1\<close> as its context. The
  record, and with it the errors of the categories, is then discarded: what leaves
  \<open>scrape\<close> depends on the teardown alone.
\<close>

theorem teardown_invocations:
  "snd (ism_scrape close site) = (if close 0 = None then 1 else 2)
   \<and> snd (bsm_scrape close fe bsite) = (if close 0 = None then 1 else 2)
   \<and> snd (faith_scrape close fsite) = (if close 0 = None then 1 else 2)
   \<and> snd (ris_scrape close rsite) = (if close 0 = None then 1 else 2)
   \<and> snd (ssm_scrape close ssite) = (if close 0 = None then 1 else 2)
   \<and> snd (vcis_scrape close vsite) = (if close 0 = None then 1 else 2)
   \<and> snd (cism_scrape close csite) = (if close 0 = None then 1 else 2)
   \<and> (close 0 = None \<longrightarrow>
        (\<exists>vs. fst (ism_scrape close site) = Inr (record_of ''International School Manila'' vs)
              \<and> list_all2 payload_or_wrapper (ism_category_results site) vs)
        \<and> (\<exists>vs. fst (ris_scrape close rsite) = Inr (record_of ''Reedley International School'' vs)
              \<and> list_all2 payload_or_wrapper (ris_category_results rsite) vs)
        \<and> (\<exists>vs. fst (ssm_scrape close ssite) = Inr (record_of ''Singapore School Manila'' vs)
              \<and> list_all2 payload_or_wrapper (ssm_category_results ssite) vs)
        \<and> fst (bsm_scrape close fe bsite)
            = Inr (record_of ''British School Manila'' (bsm_category_results fe bsite))
        \<and> fst (faith_scrape close fsite)
            = Inr (record_of ''Faith Academy'' (faith_category_results fsite))
        \<and> fst (vcis_scrape close vsite)
            = Inr (record_of ''Victory Christian International School''
                     (vcis_category_results vsite))
        \<and> fst (cism_scrape close csite)
            = Inr (record_of ''Chinese International School Manila''
                     (cism_category_results csite)))
   \<and> (\<forall>e1. close 0 = Some e1 \<longrightarrow>
        fst (ism_scrape close site) = Inl (teardown_error close e1)
        \<and> fst (bsm_scrape close fe bsite) = Inl (teardown_error close e1)
        \<and> fst (faith_scrape close fsite) = Inl (teardown_error close e1)
        \<and> fst (ris_scrape close rsite) = Inl (teardown_error close e1)
        \<and> fst (ssm_scrape close ssite) = Inl (teardown_error close e1)
        \<and> fst (vcis_scrape close vsite) = Inl (teardown_error close e1)
        \<and> fst (cism_scrape close csite) = Inl (teardown_error close e1))
   \<and> teardown_error close e1
       = (case close 1 of None \<Rightarrow> e1 | Some e2 \<Rightarrow> Exn (msg e2) (Some e1))"
proof -
  obtain iv where i: "ism_scrape close site
          = close_after close (Inr (record_of ''International School Manila'' iv))"
      and ip: "list_all2 payload_or_wrapper (ism_category_results site) iv"
    using ism_body_returns [of close site] by blast
  obtain rv where r: "ris_scrape close rsite
          = close_after close (Inr (record_of ''Reedley International School'' rv))"
      and rp: "list_all2 payload_or_wrapper (ris_category_results rsite) rv"
    using ris_body_returns [of close rsite] by blast
  obtain sv where s: "ssm_scrape close ssite
          = close_after close (Inr (record_of ''Singapore School Manila'' sv))"
      and sp: "list_all2 payload_or_wrapper (ssm_category_results ssite) sv"
    using ssm_body_returns [of close ssite] by blast
  have unwrapped:
    "snd (ism_scrape close site) = (if close 0 = None then 1 else 2)"
    "snd (ris_scrape close rsite) = (if close 0 = None then 1 else 2)"
    "snd (ssm_scrape close ssite) = (if close 0 = None then 1 else 2)"
    "close 0 = None \<longrightarrow>
        (\<exists>vs. fst (ism_scrape close site) = Inr (record_of ''International School Manila'' vs)
              \<and> list_all2 payload_or_wrapper (ism_category_results site) vs)
        \<and> (\<exists>vs. fst (ris_scrape close rsite) = Inr (record_of ''Reedley International School'' vs)
              \<and> list_all2 payload_or_wrapper (ris_category_results rsite) vs)
        \<and> (\<exists>vs. fst (ssm_scrape close ssite) = Inr (record_of ''Singapore School Manila'' vs)
              \<and> list_all2 payload_or_wrapper (ssm_category_results ssite) vs)"
    "\<forall>e1. close 0 = Some e1 \<longrightarrow>
        fst (ism_scrape close site) = Inl (teardown_error close e1)
        \<and> fst (ris_scrape close rsite) = Inl (teardown_error close e1)
        \<and> fst (ssm_scrape close ssite) = Inl (teardown_error close e1)"
    using returned_outcome [OF i] returned_outcome [OF r] returned_outcome [OF s] ip rp sp
    by auto
  have wrapped:
    "snd (bsm_scrape close fe bsite) = (if close 0 = None then 1 else 2)"
    "snd (faith_scrape close fsite) = (if close 0 = None then 1 else 2)"
    "snd (vcis_scrape close vsite) = (if close 0 = None then 1 else 2)"
    "snd (cism_scrape close csite) = (if close 0 = None then 1 else 2)"
    "close 0 = None \<longrightarrow>
        fst (bsm_scrape close fe bsite)
            = Inr (record_of ''British School Manila'' (bsm_category_results fe bsite))
        \<and> fst (faith_scrape close fsite)
            = Inr (record_of ''Faith Academy'' (faith_category_results fsite))
        \<and> fst (vcis_scrape close vsite)
            = Inr (record_of ''Victory Christian International School''
                     (vcis_category_results vsite))
        \<and> fst (cism_scrape close csite)
            = Inr (record_of ''Chinese International School Manila''
                     (cism_category_results csite))"
    "\<forall>e1. close 0 = Some e1 \<longrightarrow>
        fst (bsm_scrape close fe bsite) = Inl (teardown_error close e1)
        \<and> fst (faith_scrape close fsite) = Inl (teardown_error close e1)
        \<and> fst (vcis_scrape close vsite) = Inl (teardown_error close e1)
        \<and> fst (cism_scrape close csite) = Inl (teardown_error close e1)"
    using returned_outcome [OF scrape_defs(2), of close fe bsite]
          returned_outcome [OF scrape_defs(3), of close fsite]
          returned_outcome [OF scrape_defs(4), of close vsite]
          returned_outcome [OF scrape_defs(5), of close csite]
    by auto
  have te: "teardown_error close e1
       = (case close 1 of None \<Rightarrow> e1 | Some e2 \<Rightarrow> Exn (msg e2) (Some e1))"
    by (simp add: teardown_error_def raised_while_handling_def split: option.splits)
  from unwrapped wrapped te show ?thesis by blast
qed

lemma unreachable_runs:
  "ism_scrape (\<lambda>k. None) unreachable_site
     = (Inr (output_record ''International School Manila'' (error_result ''timeout'')
              (error_result ''timeout'') (error_result ''timeout'') (error_result ''timeout'')
              (error_result ''timeout'')), 1)
   \<and> ism_scrape failing_close unreachable_site
       = (Inl (Exn ''browser has been closed'' (Some (Exn ''browser has been closed'' None))), 2)
   \<and> teardown_error failing_close (Exn ''browser has been closed'' None)
       = Exn ''browser has been closed'' (Some (Exn ''browser has been closed'' None))"
  by code_simp

theorem teardown_invocations_witness:
  "(\<lambda>k. None :: exn option) 0 = None
   \<and> ism_scrape (\<lambda>k. None) unreachable_site
       = (Inr (output_record ''International School Manila'' (error_result ''timeout'')
                (error_result ''timeout'') (error_result ''timeout'') (error_result ''timeout'')
                (error_result ''timeout'')), 1)
   \<and> failing_close 0 = Some (Exn ''browser has been closed'' None)
   \<and> ism_scrape failing_close unreachable_site
       = (Inl (teardown_error failing_close (Exn ''browser has been closed'' None)), 2)"
  using teardown_invocations [of "\<lambda>k. None" unreachable_site]
        teardown_invocations [of failing_close unreachable_site]
        unreachable_runs
  by (simp add: failing_close_def)

text \<open>
  Claim C8, as stated, fails: when \<open>close_playwright\<close> raises, \<open>scrape\<close> raises after the
  five categories were collected, and \<open>run_scraper\<close> returns \<open>None\<close> for the school.
\<close>

theorem absent_record_counterexample:
  "fst (ism_scrape failing_close unreachable_site)
     = Inl (Exn ''browser has been closed'' (Some (Exn ''browser has been closed'' None)))
   \<and> run_scraper (ism_scrape failing_close unreachable_site) = None"
  by (simp add: run_scraper_def ism_scrape_def close_after_def failing_close_def unreachable_site_def
        scrape_tuition_fees_def scrape_curriculum_def scrape_enrollment_process_def
        scrape_scholarships_def scrape_contact_info_def guarded_def unwrapped_results_def
        try_bind_def raised_while_handling_def)

lemma run_scraper_returned:
  "close 0 = None \<Longrightarrow> run_scraper (close_after close (Inr r)) = Some r"
  by (simp add: run_scraper_def close_after_def)

text \<open>
  Claim C8, amended. Whenever the first call of \<open>close_playwright\<close> returns, the school
  gets a record with its name and the five category fields. In the records of ISM, RIS
  and SSM each field is the payload of a successful category result or the whole wrapper
  of a result with another status; in the records of BSM, Faith, VCIS and CISM each field
  is the whole wrapper, with one of the six statuses. This holds also when every category
  returns an error.
\<close>

theorem scrape_record_complete:
  assumes "close 0 = None"
  shows "(\<exists>vs. run_scraper (ism_scrape close site)
                  = Some (record_of ''International School Manila'' vs)
               \<and> list_all2 payload_or_wrapper (ism_category_results site) vs)
         \<and> (\<exists>vs. run_scraper (ris_scrape close rsite)
                  = Some (record_of ''Reedley International School'' vs)
               \<and> list_all2 payload_or_wrapper (ris_category_results rsite) vs)
         \<and> (\<exists>vs. run_scraper (ssm_scrape close ssite)
                  = Some (record_of ''Singapore School Manila'' vs)
               \<and> list_all2 payload_or_wrapper (ssm_category_results ssite) vs)
         \<and> run_scraper (bsm_scrape close fe bsite)
             = Some (record_of ''British School Manila'' (bsm_category_results fe bsite))
         \<and> list_all has_status (bsm_category_results fe bsite)
         \<and> run_scraper (faith_scrape close fsite)
             = Some (record_of ''Faith Academy'' (faith_category_results fsite))
         \<and> list_all has_status (faith_category_results fsite)
         \<and> run_scraper (vcis_scrape close vsite)
             = Some (record_of ''Victory Christian International School''
                       (vcis_category_results vsite))
         \<and> list_all has_status (vcis_category_results vsite)
         \<and> run_scraper (cism_scrape close csite)
             = Some (record_of ''Chinese International School Manila''
                       (cism_category_results csite))
         \<and> list_all has_status (cism_category_results csite)"
proof -
  have "\<exists>vs. run_scraper (ism_scrape close site)
                  = Some (record_of ''International School Manila'' vs)
               \<and> list_all2 payload_or_wrapper (ism_category_results site) vs"
    using ism_try_block [of site] assms
    by (auto simp: scrape_defs run_scraper_returned)
  moreover have "\<exists>vs. run_scraper (ris_scrape close rsite)
                  = Some (record_of ''Reedley International School'' vs)
               \<and> list_all2 payload_or_wrapper (ris_category_results rsite) vs"
    using ris_try_block [of rsite] assms
    by (auto simp: ris_scrape_def run_scraper_returned)
  moreover have "\<exists>vs. run_scraper (ssm_scrape close ssite)
                  = Some (record_of ''Singapore School Manila'' vs)
               \<and> list_all2 payload_or_wrapper (ssm_category_results ssite) vs"
    using ssm_try_block [of ssite] assms
    by (auto simp: ssm_scrape_def run_scraper_returned)
  ultimately show ?thesis
    using assms bsm_statuses [of fe bsite] faith_statuses [of fsite] vcis_statuses [of vsite]
      cism_statuses [of csite]
    by (simp add: scrape_defs run_scraper_returned)
qed

theorem scrape_record_complete_witness:
  "(\<lambda>k. None :: exn option) 0 = None
   \<and> run_scraper (ism_scrape (\<lambda>k. None) unreachable_site)
       = Some (output_record ''International School Manila'' (error_result ''timeout'')
                (error_result ''timeout'') (error_result ''timeout'') (error_result ''timeout'')
                (error_result ''timeout''))"
  using scrape_record_complete [of "\<lambda>k. None" unreachable_site]
  by (simp add: run_scraper_def ism_scrape_def close_after_def unreachable_site_def
        scrape_tuition_fees_def scrape_curriculum_def scrape_enrollment_process_def
        scrape_scholarships_def scrape_contact_info_def guarded_def unwrapped_results_def
        try_bind_def output_record_def)

subsection \<open>Enrollment steps and requirements\<close>

lemma counter_add_map_of:
  "map_of (counter_add x c) =
     (map_of c)(x \<mapsto> (case map_of c x of None \<Rightarrow> 1 | Some n \<Rightarrow> Suc n))"
  by (induction x c rule: counter_add.induct) auto

lemma counter_add_keys:
  "map fst (counter_add x c) = (if x \<in> set (map fst c) then map fst c else map fst c @ [x])"
  by (induction x c rule: counter_add.induct) auto

lemma counter_add_distinct:
  "distinct (map fst c) \<Longrightarrow> distinct (map fst (counter_add x c))"
  by (simp add: counter_add_keys)

lemma counter_fold_distinct:
  "distinct (map fst c) \<Longrightarrow> distinct (map fst (foldl (\<lambda>c x. counter_add x c) c xs))"
  by (induction xs arbitrary: c) (simp_all add: counter_add_distinct)

lemma counter_fold_map_of:
  "map_of (foldl (\<lambda>c x. counter_add x c) c xs) r =
     (case map_of c r of
        None \<Rightarrow> if r \<in> set xs then Some (count_list xs r) else None
      | Some n \<Rightarrow> Some (n + count_list xs r))"
proof (induction xs arbitrary: c)
  case Nil
  then show ?case by (simp split: option.splits)
next
  case (Cons x xs)
  show ?case
    by (simp add: Cons.IH counter_add_map_of split: option.splits)
qed

lemma Counter_map_of:
  "map_of (Counter xs) r = (if r \<in> set xs then Some (count_list xs r) else None)"
  by (simp add: Counter_def counter_fold_map_of)

lemma Counter_distinct: "distinct (map fst (Counter xs))"
  by (simp add: Counter_def counter_fold_distinct)

lemma common_requirements_iff:
  "r \<in> set (common_requirements gr) \<longleftrightarrow>
     r \<in> set (all_requirements gr) \<and> length gr div 2 \<le> count_list (all_requirements gr) r"
proof -
  let ?all = "all_requirements gr"
  have "r \<in> set (common_requirements gr) \<longleftrightarrow>
        (\<exists>n. (r, n) \<in> set (Counter ?all) \<and> length gr div 2 \<le> n)"
    by (force simp: common_requirements_def common_threshold_def)
  also have "\<dots> \<longleftrightarrow> (\<exists>n. map_of (Counter ?all) r = Some n \<and> length gr div 2 \<le> n)"
    using Counter_distinct [of ?all] by (auto dest: map_of_SomeD)
  also have "\<dots> \<longleftrightarrow> r \<in> set ?all \<and> length gr div 2 \<le> count_list ?all r"
    by (auto simp: Counter_map_of)
  finally show ?thesis .
qed

text \<open>
  Claim C3. When the ISM enrollment method has parsed a non-empty dictionary of grade
  levels, a requirement that occurs in their lists is classified as common if and only if
  the number of its occurrences across the lists is at least the number of grade levels
  divided by two, rounded down. With four grade levels, a requirement that occurs three
  times is common and one that occurs once is not.
\<close>

theorem common_requirement_threshold:
  assumes "parse_requirements_data (ep_tabs_container page) = gr" and "gr \<noteq> []"
      and "r \<in> set (all_requirements gr)"
  shows "r \<in> set (en_requirements (enrollment_of page))
           \<longleftrightarrow> length gr div 2 \<le> count_list (all_requirements gr) r"
  using assms by (simp add: enrollment_of_def Let_def common_requirements_iff)

lemma four_grades_parsed:
  "parse_requirements_data (ep_tabs_container four_grades_page) =
     [(''Preschool'', \<lparr>forms = [], requirements = [''Birth Certificate'', ''Medical Form'']\<rparr>),
      (''Elementary'', \<lparr>forms = [], requirements = [''Birth Certificate'']\<rparr>),
      (''Middle School'', \<lparr>forms = [], requirements = [''Birth Certificate'']\<rparr>),
      (''High School'', \<lparr>forms = [], requirements = [''Report Card'']\<rparr>)]"
  by (simp add: four_grades_page_def grade_section_def parse_requirements_data_def
        parse_accordion_def parse_grade_def)

theorem common_requirement_threshold_witness:
  "length (parse_requirements_data (ep_tabs_container four_grades_page)) = 4
   \<and> count_list (all_requirements (parse_requirements_data (ep_tabs_container four_grades_page)))
        ''Birth Certificate'' = 3
   \<and> count_list (all_requirements (parse_requirements_data (ep_tabs_container four_grades_page)))
        ''Medical Form'' = 1
   \<and> ''Birth Certificate'' \<in> set (en_requirements (enrollment_of four_grades_page))
   \<and> ''Medical Form'' \<notin> set (en_requirements (enrollment_of four_grades_page))"
  using common_requirement_threshold [OF four_grades_parsed, of "''Birth Certificate''"]
        common_requirement_threshold [OF four_grades_parsed, of "''Medical Form''"]
  by (simp add: four_grades_parsed all_requirements_def)

text \<open>
  Claim C4, as stated, fails for the ISM extractor: its enrollment method parses no step
  number and returns the steps in document order, here Step 3, Step 1, Step 2.
\<close>

theorem ism_steps_document_order_counterexample:
  "map st_title (en_steps (enrollment_of shuffled_ism_page)) = [''Step 3'', ''Step 1'', ''Step 2'']
   \<and> map st_title (en_steps (enrollment_of shuffled_ism_page)) \<noteq> [''Step 1'', ''Step 2'', ''Step 3'']"
  by (simp add: enrollment_of_def shuffled_ism_page_def process_steps_def
        parse_requirements_data_def Let_def)

lemma process_steps_titles:
  "map st_title (process_steps tabs contents) =
     (if tabs \<noteq> [] \<and> length tabs = length contents then tabs else [])"
proof -
  have "length tabs = length contents \<Longrightarrow>
        map st_title (map (\<lambda>(tab, content, list_items).
                  \<lparr>st_title = tab, st_description = content,
                   st_items = (if list_items \<noteq> [] then Some list_items else None)\<rparr>)
               (zip tabs contents)) = tabs"
    by (induction tabs contents rule: list_induct2) auto
  then show ?thesis by (simp add: process_steps_def)
qed

lemma shuffled_steps:
  "map title (bsm_application_steps fe shuffled_panels) = [''Step 1'', ''Step 2'', ''Step 3'']"
  by (simp add: bsm_application_steps_def shuffled_panels_def numbered_panel_def bsm_panel_def
        enumerate_eq_zip step_number_of_def py_int_def strip_def is_space_def digit_val_def
        description_of_def Let_def upt_rec)

text \<open>
  Claim C4, amended. The BSM enrollment method returns its steps sorted by step number
  (the number of \<open>span.accordion-number\<close>, or the position of the panel when there is no
  such number): the output is ordered, holds the same steps as were collected, and keeps
  the document order among steps of equal number; panels met in the order Step 3, Step 1,
  Step 2 come out as Step 1, Step 2, Step 3. The ISM enrollment method returns the steps
  in the document order of the accordion titles.
\<close>

theorem bsm_steps_sorted:
  "sorted (map step_number (bsm_application_steps fe panels))
   \<and> set (bsm_application_steps fe panels) = set (bsm_collected_steps fe panels)
   \<and> length (bsm_application_steps fe panels) = length (bsm_collected_steps fe panels)
   \<and> filter (\<lambda>s. step_number s = k) (bsm_application_steps fe panels)
       = filter (\<lambda>s. step_number s = k) (bsm_collected_steps fe panels)
   \<and> map title (bsm_application_steps fe shuffled_panels) = [''Step 1'', ''Step 2'', ''Step 3'']
   \<and> map st_title (process_steps tabs contents)
       = (if tabs \<noteq> [] \<and> length tabs = length contents then tabs else [])"
  using shuffled_steps [of fe] process_steps_titles [of tabs contents]
  by (simp add: bsm_application_steps_def bsm_collected_steps_def sort_key_stable)

subsection \<open>Dispatch\<close>

lemma find_in_catalog:
  "(find (\<lambda>s. ce_name s = school) cat = None) = (\<not> in_catalog cat school)"
  by (auto simp: in_catalog_def find_None_iff list_ex_iff)

lemma add_task_unknown:
  "\<not> in_catalog cat school \<Longrightarrow> add_task cat reg tasks school = tasks"
  using find_in_catalog [of school cat] by (simp add: add_task_def)

lemma add_task_known:
  "in_catalog cat school \<Longrightarrow>
   map (\<lambda>t. (ce_name (snd (snd t)), fst (snd t))) (add_task cat reg tasks school)
     = map (\<lambda>t. (ce_name (snd (snd t)), fst (snd t))) tasks @ [(school, snd (choose_scraper reg school))]"
proof -
  assume "in_catalog cat school"
  then obtain sd where f: "find (\<lambda>s. ce_name s = school) cat = Some sd"
    using find_in_catalog [of school cat] by auto
  then have "ce_name sd = school" by (auto dest: find_Some_iff [THEN iffD1])
  with f show ?thesis by (simp add: add_task_def)
qed

lemma add_task_fold:
  "map (\<lambda>t. (ce_name (snd (snd t)), fst (snd t))) (foldl (add_task cat reg) tasks sel)
     = map (\<lambda>t. (ce_name (snd (snd t)), fst (snd t))) tasks
       @ map (\<lambda>s. (s, snd (choose_scraper reg s))) (filter (in_catalog cat) sel)"
proof (induction sel arbitrary: tasks)
  case Nil
  then show ?case by simp
next
  case (Cons school sel)
  show ?case
  proof (cases "in_catalog cat school")
    case False
    then show ?thesis by (simp add: Cons.IH add_task_unknown)
  next
    case True
    then show ?thesis by (simp add: Cons.IH add_task_known)
  qed
qed

lemma ism_choice:
  "direct_match [(''ISM'', ISMScraper), (''BSM'', BSMScraper)] ''International School Manila'' = None
   \<and> initials_of ''International School Manila'' = ''ISM''
   \<and> choose_scraper [(''ISM'', ISMScraper), (''BSM'', BSMScraper)] ''International School Manila''
       = (''Using ISMScraper for International School Manila based on initials match'', ISMScraper)
   \<and> choose_scraper [(''BSM'', BSMScraper), (''ISM'', ISMScraper)] ''International School Manila''
       = (''Using ISMScraper for International School Manila based on initials match'', ISMScraper)"
  by code_simp

text \<open>
  Claim C7. The scraper that \<open>run_scrapers\<close> chooses for a school is a function of the
  registry and of the school name alone: whatever else is selected, and wherever the
  school stands in the selection, its task holds \<open>choose_scraper scrapers school\<close>. With
  ISM and BSM registered, in either order, \<open>International School Manila\<close> matches no
  short code directly, has the initials ISM, and is dispatched to the ISM scraper by the
  initials rule.
\<close>

theorem dispatch_deterministic:
  "map (\<lambda>t. (ce_name (snd (snd t)), fst (snd t))) (scraper_tasks selected_schools school_data_list scrapers)
     = map (\<lambda>school. (school, snd (choose_scraper scrapers school)))
           (filter (in_catalog school_data_list) selected_schools)
   \<and> direct_match [(''ISM'', ISMScraper), (''BSM'', BSMScraper)] ''International School Manila'' = None
   \<and> initials_of ''International School Manila'' = ''ISM''
   \<and> choose_scraper [(''ISM'', ISMScraper), (''BSM'', BSMScraper)] ''International School Manila''
       = (''Using ISMScraper for International School Manila based on initials match'', ISMScraper)
   \<and> choose_scraper [(''BSM'', BSMScraper), (''ISM'', ISMScraper)] ''International School Manila''
       = (''Using ISMScraper for International School Manila based on initials match'', ISMScraper)"
  using add_task_fold [of school_data_list scrapers "[]" selected_schools] ism_choice
  by (simp add: scraper_tasks_def)

subsection \<open>Tuition fees\<close>

lemma scan_row_section:
  "fst (scan_row (cs, td) cells) = (case header_of cells of Some s \<Rightarrow> Some s | None \<Rightarrow> cs)"
  by (simp add: scan_row_def header_of_def Let_def)

lemma scan_row_snd:
  "snd (scan_row (cs, td) cells) =
     (if data_row cells \<and> \<not> no_section cs
      then add_program cs (row_name cells) (row_fee cells) td else td)"
  by (simp add: scan_row_def data_row_def header_of_def row_name_def row_fee_def Let_def)

lemma alt_row_section:
  "fst (alt_row (cs, td) cells) = (case alt_header_of cells of Some s \<Rightarrow> Some s | None \<Rightarrow> cs)"
  by (simp add: alt_row_def alt_header_of_def Let_def)

lemma alt_row_snd:
  "snd (alt_row (cs, td) cells) =
     (if alt_data_row cells \<and> \<not> no_section cs
      then add_program cs (alt_row_name cells) (alt_row_fee cells) td else td)"
  by (simp add: alt_row_def alt_data_row_def alt_header_of_def alt_row_name_def alt_row_fee_def
        Let_def)

lemma fold_section:
  assumes "\<And>cs td cells. fst (step (cs, td) cells) = (case h cells of Some s \<Rightarrow> Some s | None \<Rightarrow> cs)"
  shows "fst (foldl step (cs, td) rows)
           = foldl (\<lambda>current r. case h r of Some s \<Rightarrow> Some s | None \<Rightarrow> current) cs rows"
proof (induction rows arbitrary: cs td)
  case Nil
  show ?case by simp
next
  case (Cons r rows)
  obtain cs' td' where s: "step (cs, td) r = (cs', td')" by (cases "step (cs, td) r")
  then have "cs' = (case h r of Some s \<Rightarrow> Some s | None \<Rightarrow> cs)"
    using assms [of cs td r] by simp
  with s show ?case by (simp add: Cons.IH)
qed

lemma scan_section: "fst (foldl scan_row (None, td) rows) = last_opened header_of rows"
  unfolding last_opened_def by (rule fold_section) (rule scan_row_section)

lemma alt_section: "fst (foldl alt_row (None, td) rows) = last_opened alt_header_of rows"
  unfolding last_opened_def by (rule fold_section) (rule alt_row_section)

lemma fold_in_sections:
  assumes "\<And>r. h r \<in> sections" and "c \<in> sections"
  shows "foldl (\<lambda>current r. case h r of Some s \<Rightarrow> Some s | None \<Rightarrow> current) c rows \<in> sections"
  using assms(2)
proof (induction rows arbitrary: c)
  case Nil
  then show ?case by simp
next
  case (Cons r rows)
  have "(case h r of Some s \<Rightarrow> Some s | None \<Rightarrow> c) \<in> sections"
    using assms(1) [of r] Cons.prems by (cases "h r") auto
  then show ?case by (simp add: Cons.IH)
qed

lemma last_opened_sections:
  "last_opened header_of rows \<in> sections \<and> last_opened alt_header_of rows \<in> sections"
proof -
  have a: "\<And>r. header_of r \<in> sections" by (simp add: header_of_def sections_def)
  have b: "\<And>r. alt_header_of r \<in> sections" by (simp add: alt_header_of_def sections_def)
  have n: "None \<in> sections" by (simp add: sections_def)
  show ?thesis
    unfolding last_opened_def
    using fold_in_sections [of header_of None rows, OF a n]
          fold_in_sections [of alt_header_of None rows, OF b n] by simp
qed

lemma no_section_sections: "cs \<in> sections \<Longrightarrow> no_section cs \<longleftrightarrow> cs = None"
  by (auto simp: sections_def no_section_def)

lemma step_of_fold:
  assumes "i < length rows"
  shows "foldl step st (take (Suc i) rows) = step (foldl step st (take i rows)) (rows ! i)"
  using assms by (simp add: take_Suc_conv_app_nth)

lemma scan_step:
  assumes "i < length rows"
  shows "snd (foldl scan_row (None, td) (take (Suc i) rows)) =
           (if data_row (rows ! i) \<and> last_opened header_of (take i rows) \<noteq> None
            then add_program (last_opened header_of (take i rows))
                   (row_name (rows ! i)) (row_fee (rows ! i))
                   (snd (foldl scan_row (None, td) (take i rows)))
            else snd (foldl scan_row (None, td) (take i rows)))"
proof -
  let ?before = "foldl scan_row (None, td) (take i rows)"
  let ?cur = "last_opened header_of (take i rows)"
  have b: "?before = (?cur, snd ?before)"
    by (simp add: prod_eq_iff scan_section)
  have "?cur \<in> sections" using last_opened_sections by blast
  then have ns: "no_section ?cur \<longleftrightarrow> ?cur = None" by (rule no_section_sections)
  have "snd (foldl scan_row (None, td) (take (Suc i) rows)) = snd (scan_row ?before (rows ! i))"
    by (simp only: step_of_fold [OF assms])
  also have "\<dots> = snd (scan_row (?cur, snd ?before) (rows ! i))"
    using b by metis
  also have "\<dots> = (if data_row (rows ! i) \<and> \<not> no_section ?cur
                    then add_program ?cur (row_name (rows ! i)) (row_fee (rows ! i)) (snd ?before)
                    else snd ?before)"
    by (rule scan_row_snd)
  finally show ?thesis by (simp only: ns)
qed

lemma alt_step:
  assumes "i < length rows"
  shows "snd (foldl alt_row (None, td) (take (Suc i) rows)) =
           (if alt_data_row (rows ! i) \<and> last_opened alt_header_of (take i rows) \<noteq> None
            then add_program (last_opened alt_header_of (take i rows))
                   (alt_row_name (rows ! i)) (alt_row_fee (rows ! i))
                   (snd (foldl alt_row (None, td) (take i rows)))
            else snd (foldl alt_row (None, td) (take i rows)))"
proof -
  let ?before = "foldl alt_row (None, td) (take i rows)"
  let ?cur = "last_opened alt_header_of (take i rows)"
  have b: "?before = (?cur, snd ?before)"
    by (simp add: prod_eq_iff alt_section)
  have "?cur \<in> sections" using last_opened_sections by blast
  then have ns: "no_section ?cur \<longleftrightarrow> ?cur = None" by (rule no_section_sections)
  have "snd (foldl alt_row (None, td) (take (Suc i) rows)) = snd (alt_row ?before (rows ! i))"
    by (simp only: step_of_fold [OF assms])
  also have "\<dots> = snd (alt_row (?cur, snd ?before) (rows ! i))"
    using b by metis
  also have "\<dots> = (if alt_data_row (rows ! i) \<and> \<not> no_section ?cur
                    then add_program ?cur (alt_row_name (rows ! i)) (alt_row_fee (rows ! i))
                           (snd ?before)
                    else snd ?before)"
    by (rule alt_row_snd)
  finally show ?thesis by (simp only: ns)
qed

lemma add_program_sections:
  "add_program None n f d = d
   \<and> add_program (Some ''regular_program'') n f d
       = d\<lparr>regular_program := AList.update n f (regular_program d)\<rparr>
   \<and> add_program (Some ''specialized_program'') n f d
       = d\<lparr>specialized_program := AList.update n f (specialized_program d)\<rparr>"
  by (simp add: add_program_def)

lemma example_primary: "snd (scan_rows example_rows empty_tuition_data) = empty_tuition_data"
  by code_simp

lemma example_method:
  "fst (scrape_tuition_fees (Inr (page_of_table example_rows)))
     = success_result (tuition_json example_programs)"
  by code_simp

lemma mixed_method:
  "fst (scrape_tuition_fees (Inr (page_of_table mixed_rows)))
     = success_result (tuition_json mixed_programs)"
  by code_simp

lemma mixed_header: "last_opened keyword_header (take 3 mixed_rows) = Some ''specialized_program''"
  by code_simp

text \<open>
  Claim C2, as stated, fails. The loop over \<open>table.table\<close> skips every row of fewer than
  two cells before it looks for a header keyword, so the one-cell row
  \<open>SPECIALIZED PROGRAM\<close> opens no section: in the table below, \<open>Support A\<close> follows that
  header row and still lands in \<open>regular_program\<close>, and \<open>specialized_program\<close> stays empty.
  On the table of the specification, whose two header rows have one cell, this loop
  attributes nothing at all.
\<close>

theorem cross_attribution_counterexample:
  "mixed_rows ! 2 = [''SPECIALIZED PROGRAM'']
   \<and> last_opened keyword_header (take 3 mixed_rows) = Some ''specialized_program''
   \<and> mixed_rows ! 3 = [''Support A'', ''80'', ''40'', ''40'']
   \<and> fst (scrape_tuition_fees (Inr (page_of_table mixed_rows)))
       = success_result (tuition_json mixed_programs)
   \<and> map fst (regular_program mixed_programs) = [''Grade 1'', ''Support A'']
   \<and> specialized_program mixed_programs = []
   \<and> snd (scan_rows example_rows empty_tuition_data) = empty_tuition_data"
  using mixed_method mixed_header example_primary
  by (simp add: mixed_rows_def mixed_programs_def)

text \<open>
  Claim C2, amended. In the loop over \<open>table.table\<close> the current section is the one most
  recently opened by a row of at least two cells whose non-empty first cell holds a header
  keyword; in the alternative parsing it is the one most recently opened, within the same
  table, by a row of at least one cell whose first cell holds a header keyword. In both
  loops row \<open>i\<close> changes the result only if it is a data row and a section has been opened
  before it, and then it is entered, under its own name and fees, into the dictionary of
  that section alone: \<open>regular_program\<close> or \<open>specialized_program\<close>, never both, and into
  none before the first header. On the table of the specification the first loop
  attributes nothing, and the method, through the alternative parsing, puts \<open>Grade 1\<close>
  into \<open>regular_program\<close> and \<open>Support A\<close> into \<open>specialized_program\<close>.
\<close>

theorem section_attribution:
  assumes "i < length rows"
  shows
   "fst (foldl scan_row (None, td) (take i rows)) = last_opened header_of (take i rows)
    \<and> snd (foldl scan_row (None, td) (take (Suc i) rows)) =
        (if data_row (rows ! i) \<and> last_opened header_of (take i rows) \<noteq> None
         then add_program (last_opened header_of (take i rows))
                (row_name (rows ! i)) (row_fee (rows ! i))
                (snd (foldl scan_row (None, td) (take i rows)))
         else snd (foldl scan_row (None, td) (take i rows)))
    \<and> fst (foldl alt_row (None, td) (take i rows)) = last_opened alt_header_of (take i rows)
    \<and> snd (foldl alt_row (None, td) (take (Suc i) rows)) =
        (if alt_data_row (rows ! i) \<and> last_opened alt_header_of (take i rows) \<noteq> None
         then add_program (last_opened alt_header_of (take i rows))
                (alt_row_name (rows ! i)) (alt_row_fee (rows ! i))
                (snd (foldl alt_row (None, td) (take i rows)))
         else snd (foldl alt_row (None, td) (take i rows)))
    \<and> last_opened header_of (take i rows) \<in> sections
    \<and> last_opened alt_header_of (take i rows) \<in> sections
    \<and> add_program None n f d = d
    \<and> add_program (Some ''regular_program'') n f d
        = d\<lparr>regular_program := AList.update n f (regular_program d)\<rparr>
    \<and> add_program (Some ''specialized_program'') n f d
        = d\<lparr>specialized_program := AList.update n f (specialized_program d)\<rparr>
    \<and> snd (scan_rows example_rows empty_tuition_data) = empty_tuition_data
    \<and> fst (scrape_tuition_fees (Inr (page_of_table example_rows)))
        = success_result (tuition_json example_programs)"
  using scan_step [OF assms, of td] alt_step [OF assms, of td]
        scan_section [of td "take i rows"] alt_section [of td "take i rows"]
        last_opened_sections [of "take i rows"] add_program_sections [of n f d]
        example_primary example_method
  by simp

lemma example_alt_step:
  "snd (foldl alt_row (None, empty_tuition_data) (take 3 example_rows))
       = example_programs\<lparr>specialized_program := []\<rparr>
   \<and> last_opened alt_header_of (take 3 example_rows) = Some ''specialized_program''
   \<and> alt_data_row (example_rows ! 3)"
  by code_simp

theorem section_attribution_witness:
  "3 < length example_rows
   \<and> last_opened alt_header_of (take 3 example_rows) = Some ''specialized_program''
   \<and> alt_data_row (example_rows ! 3)
   \<and> snd (foldl alt_row (None, empty_tuition_data) (take (Suc 3) example_rows))
       = add_program (Some ''specialized_program'')
           (alt_row_name (example_rows ! 3)) (alt_row_fee (example_rows ! 3))
           (example_programs\<lparr>specialized_program := []\<rparr>)"
proof -
  have l: "3 < length example_rows" by (simp add: example_rows_def)
  show ?thesis
    using l section_attribution [OF l, of empty_tuition_data] example_alt_step
    by simp
qed

lemma no_class_method:
  "scrape_tuition_fees (Inr page_without_class)
     = (error_result ''Tuition fee table not found'', [SelectOne ''table.table''])
   \<and> alt_tables (tp_tables page_without_class) empty_tuition_data = example_programs"
  by code_simp

text \<open>
  Claim C5, as stated, fails: when \<open>table.table\<close> matches nothing, the method returns the
  error result at once. The other tables of the page are never queried, although the
  alternative parsing would have found both programs in them.
\<close>

theorem fallback_not_attempted_counterexample:
  "tp_table page_without_class = None
   \<and> scrape_tuition_fees (Inr page_without_class)
       = (error_result ''Tuition fee table not found'', [SelectOne ''table.table''])
   \<and> FindAll ''table'' \<notin> set (snd (scrape_tuition_fees (Inr page_without_class)))
   \<and> alt_tables (tp_tables page_without_class) empty_tuition_data = example_programs"
  using no_class_method by (simp add: page_without_class_def)

text \<open>
  Claim C5, amended. When \<open>table.table\<close> matches nothing, the ISM tuition method returns
  the error \<open>Tuition fee table not found\<close> after that single query. The alternative
  parsing over all tables is attempted exactly when the page was fetched, \<open>table.table\<close>
  matched, the extraction of the content section did not raise, and the first loop left
  both program dictionaries empty; the method then returns success with what the
  alternative parsing adds. The CISM tuition method does climb the ladder: it tries the
  specific selector, then \<open>div.table_content table\<close>, then any table, and returns its
  error only when all three match nothing.
\<close>

theorem fallback_ladder:
  "(tp_table page = None \<longrightarrow>
      scrape_tuition_fees (Inr page)
        = (error_result ''Tuition fee table not found'', [SelectOne ''table.table'']))
   \<and> (FindAll ''table'' \<in> set (snd (scrape_tuition_fees fetched)) \<longleftrightarrow>
        (\<exists>pg rows additional other.
           fetched = Inr pg \<and> tp_table pg = Some rows
           \<and> tp_content_fees pg = Inr (additional, other)
           \<and> regular_program (snd (scan_rows rows empty_tuition_data)) = []
           \<and> specialized_program (snd (scan_rows rows empty_tuition_data)) = []))
   \<and> (\<forall>rows additional other.
        tp_table page = Some rows \<and> tp_content_fees page = Inr (additional, other)
        \<and> regular_program (snd (scan_rows rows empty_tuition_data)) = []
        \<and> specialized_program (snd (scan_rows rows empty_tuition_data)) = []
        \<longrightarrow> fst (scrape_tuition_fees (Inr page))
              = success_result (tuition_json (alt_tables (tp_tables page)
                  ((snd (scan_rows rows empty_tuition_data))
                     \<lparr>additional_fees := additional, other_fees := other\<rparr>))))
   \<and> snd (cism_scrape_tuition_fees (Inr cpage))
       = SelectOne ''div.accordion_container div.item_content div.table_content table'' #
         (if cp_specific cpage = None
          then SelectOne ''div.table_content table'' #
               (if cp_general cpage = None then [Find ''table''] else [])
          else [])
   \<and> (fst (cism_scrape_tuition_fees (Inr cpage)) = error_result ''Tuition fee table not found''
        \<longleftrightarrow> cp_specific cpage = None \<and> cp_general cpage = None \<and> cp_any cpage = None)"
proof -
  have ism: "(tp_table page = None \<longrightarrow>
      scrape_tuition_fees (Inr page)
        = (error_result ''Tuition fee table not found'', [SelectOne ''table.table'']))
   \<and> (FindAll ''table'' \<in> set (snd (scrape_tuition_fees fetched)) \<longleftrightarrow>
        (\<exists>pg rows additional other.
           fetched = Inr pg \<and> tp_table pg = Some rows
           \<and> tp_content_fees pg = Inr (additional, other)
           \<and> regular_program (snd (scan_rows rows empty_tuition_data)) = []
           \<and> specialized_program (snd (scan_rows rows empty_tuition_data)) = []))
   \<and> (\<forall>rows additional other.
        tp_table page = Some rows \<and> tp_content_fees page = Inr (additional, other)
        \<and> regular_program (snd (scan_rows rows empty_tuition_data)) = []
        \<and> specialized_program (snd (scan_rows rows empty_tuition_data)) = []
        \<longrightarrow> fst (scrape_tuition_fees (Inr page))
              = success_result (tuition_json (alt_tables (tp_tables page)
                  ((snd (scan_rows rows empty_tuition_data))
                     \<lparr>additional_fees := additional, other_fees := other\<rparr>))))"
    by (auto simp: scrape_tuition_fees_def tuition_body_def guarded_def Let_def
             split: sum.splits option.splits prod.splits)
  have cism: "snd (cism_scrape_tuition_fees (Inr cpage))
       = SelectOne ''div.accordion_container div.item_content div.table_content table'' #
         (if cp_specific cpage = None
          then SelectOne ''div.table_content table'' #
               (if cp_general cpage = None then [Find ''table''] else [])
          else [])
   \<and> (fst (cism_scrape_tuition_fees (Inr cpage)) = error_result ''Tuition fee table not found''
        \<longleftrightarrow> cp_specific cpage = None \<and> cp_general cpage = None \<and> cp_any cpage = None)"
    by (auto simp: cism_scrape_tuition_fees_def cism_tuition_body_def cism_table_def guarded_def
          success_result_def error_result_def split: option.splits)
  from ism cism show ?thesis by blast
qed

theorem fallback_ladder_witness:
  "tp_table page_without_class = None
   \<and> scrape_tuition_fees (Inr page_without_class)
       = (error_result ''Tuition fee table not found'', [SelectOne ''table.table''])
   \<and> tp_table (page_of_table example_rows) = Some example_rows
   \<and> tp_content_fees (page_of_table example_rows) = Inr ([], [])
   \<and> regular_program (snd (scan_rows example_rows empty_tuition_data)) = []
   \<and> specialized_program (snd (scan_rows example_rows empty_tuition_data)) = []
   \<and> FindAll ''table'' \<in> set (snd (scrape_tuition_fees (Inr (page_of_table example_rows))))
   \<and> fst (scrape_tuition_fees (Inr (page_of_table example_rows)))
       = success_result (tuition_json (alt_tables [example_rows] empty_tuition_data))"
  using fallback_ladder [of page_without_class "Inr (page_of_table example_rows)"]
        fallback_ladder [of "page_of_table example_rows" "Inr (page_of_table example_rows)"]
        example_primary
  by (simp add: page_without_class_def page_of_table_def empty_tuition_data_def)

end
